theory Spec2Isabelle
  imports Complex_Main
begin

section \<open>The property investment calculator (src/app.py)\<close>

text \<open>
  The calculation engine of \<^verbatim>\<open>app.py\<close> is the function \<^verbatim>\<open>calculate_scenario\<close>
  (lines 34--145) and the sensitivity loop that calls it (lines 176--187). Python's
  numbers are modelled in exact arithmetic: every amount and rate is a \<open>real\<close>, the
  year counts (slider values) are \<open>int\<close>. Rounding of binary floating point is not
  modelled.
\<close>

subsection \<open>Data\<close>

text \<open>
  The module-level values that \<^verbatim>\<open>calculate_scenario\<close> reads as globals (sidebar
  inputs, lines 16--30). Purchase price, loan amount, interest rate and capital growth
  are its arguments.
\<close>

record inputs =
  loan_term :: int
  interest_only_period :: int
  weekly_rent :: real
  vacancy_rate :: real
  annual_opex :: real
  land_tax :: real
  marginal_tax_rate :: real
  cpi_rate :: real
  holding_period :: int

text \<open>
  One row of \<^verbatim>\<open>data\<close>: an eleven-element Python list, read by position in the
  source (\<^verbatim>\<open>row[1]\<close> value, \<^verbatim>\<open>row[2]\<close> loan, \<^verbatim>\<open>row[9]\<close> pre-tax cash flow,
  \<^verbatim>\<open>row[10]\<close> post-tax cash flow). The fields carry the column names of line 137, in
  the order of the positions 0..10.
\<close>

record year_record =
  Year :: int
  Value :: real
  Loan :: real
  Rent :: real
  Opex :: real
  NOI :: real
  Interest :: real
  Principal :: real
  Tax :: real
  Pre_Tax_CF :: real
  Post_Tax_CF :: real

text \<open>The variables that the loop of lines 59--109 mutates.\<close>

record loop_state =
  current_loan :: real
  current_value :: real
  current_rent :: real
  current_opex :: real
  total_principal_paid :: real
  data :: "year_record list"
  cash_flows_pre_tax :: "real list"
  cash_flows_post_tax :: "real list"

text \<open>The dictionary returned at lines 139--145; an IRR of NaN is \<open>None\<close>.\<close>

record scenario_result =
  IRR_Post_Tax :: "real option"
  IRR_Pre_Tax :: "real option"
  Cash_on_Cash_Total :: real
  Net_Profit :: real
  Data :: "year_record list"

datatype py_error = IndexError | ZeroDivisionError

subsection \<open>Python primitives\<close>

text \<open>\<^verbatim>\<open>xs[-1]\<close> raises IndexError on an empty list.\<close>

definition py_last :: "'a list \<Rightarrow> py_error + 'a" where
  "py_last xs = (if xs = [] then Inl IndexError else Inr (last xs))"

text \<open>\<^verbatim>\<open>a / b\<close> raises ZeroDivisionError when \<open>b\<close> is zero.\<close>

definition py_truediv :: "real \<Rightarrow> real \<Rightarrow> py_error + real" where
  "py_truediv a b = (if b = 0 then Inl ZeroDivisionError else Inr (a / b))"

text \<open>
  Modelled from the spec: \<^verbatim>\<open>npf.pmt\<close> of the library numpy_financial, which is not
  part of the repository. The spec calls it the standard fixed-payment annuity formula
  that fully amortizes the balance over the remaining term, degenerating to principal
  divided by term at rate 0. The shape below is the library's:
  \<^verbatim>\<open>temp = (1 + rate)**nper; fact = nper if rate == 0 else (temp - 1) / rate;
  return -(pv * temp) / fact\<close> (future value 0, payments at the end of the period).
  The engine calls it with \<open>nper > 0\<close> only.
\<close>

definition pmt :: "real \<Rightarrow> int \<Rightarrow> real \<Rightarrow> real" where
  "pmt rate nper pv =
     (let temp = (1 + rate) ^ nat nper;
          fact = (if rate = 0 then real_of_int nper else (temp - 1) / rate)
      in - (pv * temp) / fact)"

subsection \<open>Initial costs (lines 41--44)\<close>

definition stamp_duty :: "real \<Rightarrow> real" where
  "stamp_duty p_price = p_price * 0.04"

definition closing_costs :: real where
  "closing_costs = 2000"

definition total_upfront_cost :: "real \<Rightarrow> real" where
  "total_upfront_cost p_price = p_price + stamp_duty p_price + closing_costs"

definition initial_equity :: "real \<Rightarrow> real \<Rightarrow> real" where
  "initial_equity p_price l_amount = total_upfront_cost p_price - l_amount"

subsection \<open>The yearly loop (lines 46--109)\<close>

text \<open>The running balances and streams before the loop (lines 47--57).\<close>

definition init_state :: "inputs \<Rightarrow> real \<Rightarrow> real \<Rightarrow> loop_state" where
  "init_state g p_price l_amount =
     \<lparr>current_loan = l_amount,
      current_value = p_price,
      current_rent = weekly_rent g * 52 * (1 - vacancy_rate g),
      current_opex = annual_opex g + land_tax g,
      total_principal_paid = 0,
      data = [],
      cash_flows_pre_tax = [- initial_equity p_price l_amount],
      cash_flows_post_tax = [- initial_equity p_price l_amount]\<rparr>"

text \<open>
  Lines 72--84: the pair (interest payment, principal payment) of a year, from the
  balance at the start of the year.
\<close>

definition loan_calcs :: "inputs \<Rightarrow> real \<Rightarrow> real \<Rightarrow> int \<Rightarrow> real \<times> real" where
  "loan_calcs g i_rate loan year =
     (if year \<le> interest_only_period g then (loan * i_rate, 0)
      else
        let remaining_term = loan_term g - (year - 1) in
        if remaining_term > 0 then
          let payment = - pmt i_rate remaining_term loan;
              interest_payment = loan * i_rate
          in (interest_payment, payment - interest_payment)
        else (0, 0))"

text \<open>One iteration of the loop body for the given year (lines 60--109).\<close>

definition year_step ::
  "inputs \<Rightarrow> real \<Rightarrow> real \<Rightarrow> real \<Rightarrow> real \<Rightarrow> loop_state \<Rightarrow> int \<Rightarrow> loop_state" where
  "year_step g p_price l_amount i_rate cap_growth s year =
     (if year = 0 then
        s\<lparr>data := data s @
            [\<lparr>Year = year, Value = p_price, Loan = l_amount, Rent = 0, Opex = 0, NOI = 0,
              Interest = 0, Principal = 0, Tax = 0, Pre_Tax_CF = 0,
              Post_Tax_CF = - initial_equity p_price l_amount\<rparr>]\<rparr>
      else
        let rent = current_rent s * (if year > 1 then 1 + cpi_rate g else 1);
            opex = current_opex s * (if year > 1 then 1 + cpi_rate g else 1);
            noi = rent - opex;
            interest_payment = fst (loan_calcs g i_rate (current_loan s) year);
            principal_payment = snd (loan_calcs g i_rate (current_loan s) year);
            loan = (if current_loan s - principal_payment < 0 then 0
                    else current_loan s - principal_payment);
            depreciation = (if year \<le> 10 then 6000 else 0);
            taxable_income = noi - interest_payment - depreciation;
            tax_payable = taxable_income * marginal_tax_rate g;
            pre_tax_cf = noi - interest_payment - principal_payment;
            post_tax_cf = pre_tax_cf - tax_payable;
            val = current_value s * (1 + cap_growth)
        in \<lparr>current_loan = loan,
            current_value = val,
            current_rent = rent,
            current_opex = opex,
            total_principal_paid = total_principal_paid s + principal_payment,
            data = data s @
              [\<lparr>Year = year, Value = val, Loan = loan, Rent = rent, Opex = opex, NOI = noi,
                Interest = interest_payment, Principal = principal_payment,
                Tax = tax_payable, Pre_Tax_CF = pre_tax_cf, Post_Tax_CF = post_tax_cf\<rparr>],
            cash_flows_pre_tax =
              (if year < holding_period g then cash_flows_pre_tax s @ [pre_tax_cf]
               else cash_flows_pre_tax s),
            cash_flows_post_tax =
              (if year < holding_period g then cash_flows_post_tax s @ [post_tax_cf]
               else cash_flows_post_tax s)\<rparr>)"

text \<open>The \<^verbatim>\<open>for\<close> loop over a list of years, in order.\<close>

fun run_years ::
  "inputs \<Rightarrow> real \<Rightarrow> real \<Rightarrow> real \<Rightarrow> real \<Rightarrow> loop_state \<Rightarrow> int list \<Rightarrow> loop_state" where
  "run_years g p_price l_amount i_rate cap_growth s [] = s"
| "run_years g p_price l_amount i_rate cap_growth s (year # years) =
     run_years g p_price l_amount i_rate cap_growth
       (year_step g p_price l_amount i_rate cap_growth s year) years"

text \<open>
  The state after the whole loop: \<^verbatim>\<open>years = range(holding_period + 1)\<close>, which is
  empty when the holding period is negative.
\<close>

definition run_loop :: "inputs \<Rightarrow> real \<Rightarrow> real \<Rightarrow> real \<Rightarrow> real \<Rightarrow> loop_state" where
  "run_loop g p_price l_amount i_rate cap_growth =
     run_years g p_price l_amount i_rate cap_growth (init_state g p_price l_amount)
       [0..holding_period g]"

subsection \<open>Terminal sale (lines 112--127)\<close>

text \<open>Each quantity is a function of the last row of \<^verbatim>\<open>data\<close>.\<close>

definition sale_price :: "year_record \<Rightarrow> real" where
  "sale_price row = Value row"

definition selling_costs :: "year_record \<Rightarrow> real" where
  "selling_costs row = sale_price row * 0.025"

definition loan_balance :: "year_record \<Rightarrow> real" where
  "loan_balance row = Loan row"

definition cost_base :: "real \<Rightarrow> real" where
  "cost_base p_price = p_price + stamp_duty p_price + closing_costs"

definition gross_gain :: "real \<Rightarrow> year_record \<Rightarrow> real" where
  "gross_gain p_price row = sale_price row - selling_costs row - cost_base p_price"

definition taxable_gain :: "inputs \<Rightarrow> real \<Rightarrow> year_record \<Rightarrow> real" where
  "taxable_gain g p_price row =
     (if holding_period g > 1 then gross_gain p_price row * 0.5 else gross_gain p_price row)"

definition cgt_payable :: "inputs \<Rightarrow> real \<Rightarrow> year_record \<Rightarrow> real" where
  "cgt_payable g p_price row = taxable_gain g p_price row * marginal_tax_rate g"

definition net_proceeds_post_tax :: "inputs \<Rightarrow> real \<Rightarrow> year_record \<Rightarrow> real" where
  "net_proceeds_post_tax g p_price row =
     sale_price row - selling_costs row - loan_balance row - cgt_payable g p_price row"

definition net_proceeds_pre_tax :: "year_record \<Rightarrow> real" where
  "net_proceeds_pre_tax row = sale_price row - selling_costs row - loan_balance row"

subsection \<open>Metrics and result (lines 130--145)\<close>

text \<open>
  The local variables at the end of \<^verbatim>\<open>calculate_scenario\<close>: the loop state with the
  final entries appended to both streams (lines 126--127), the last row, and the
  cash-on-cash figures of lines 133--135.
\<close>

record scenario_locals =
  final_state :: loop_state
  final_row :: year_record
  total_cash_in :: real
  total_cash_out :: real
  coc_total_outlay :: real

definition scenario_body ::
  "inputs \<Rightarrow> real \<Rightarrow> real \<Rightarrow> real \<Rightarrow> real \<Rightarrow> py_error + scenario_locals" where
  "scenario_body g p_price l_amount i_rate cap_growth =
     (let s = run_loop g p_price l_amount i_rate cap_growth in
      case py_last (data s) of
        Inl e \<Rightarrow> Inl e
      | Inr row \<Rightarrow>
          let s' = s\<lparr>cash_flows_post_tax :=
                       cash_flows_post_tax s @
                         [Post_Tax_CF row + net_proceeds_post_tax g p_price row],
                     cash_flows_pre_tax :=
                       cash_flows_pre_tax s @ [Pre_Tax_CF row + net_proceeds_pre_tax row]\<rparr>;
              cash_in = sum_list (map Post_Tax_CF (drop 1 (data s')))
                          + net_proceeds_post_tax g p_price row;
              cash_out = initial_equity p_price l_amount + total_principal_paid s'
          in case (if cash_out > 0 then py_truediv cash_in cash_out else Inr 0) of
               Inl e \<Rightarrow> Inl e
             | Inr coc \<Rightarrow>
                 Inr \<lparr>final_state = s', final_row = row, total_cash_in = cash_in,
                      total_cash_out = cash_out, coc_total_outlay = coc\<rparr>)"

text \<open>
  \<^verbatim>\<open>npf.irr\<close> belongs to the library numpy_financial and is a parameter \<open>irr\<close> here:
  it maps a cash-flow stream to a rate, or to \<open>None\<close> for NaN.
\<close>

definition calculate_scenario ::
  "(real list \<Rightarrow> real option) \<Rightarrow> inputs \<Rightarrow> real \<Rightarrow> real \<Rightarrow> real \<Rightarrow> real
     \<Rightarrow> py_error + scenario_result" where
  "calculate_scenario irr g p_price l_amount i_rate cap_growth =
     (case scenario_body g p_price l_amount i_rate cap_growth of
        Inl e \<Rightarrow> Inl e
      | Inr v \<Rightarrow>
          Inr \<lparr>IRR_Post_Tax = irr (cash_flows_post_tax (final_state v)),
               IRR_Pre_Tax = irr (cash_flows_pre_tax (final_state v)),
               Cash_on_Cash_Total = coc_total_outlay v,
               Net_Profit = sum_list (cash_flows_post_tax (final_state v)),
               Data = data (final_state v)\<rparr>)"

subsection \<open>Sensitivity matrix (lines 176--187)\<close>

definition growth_ranges :: "real list" where
  "growth_ranges = [0.03, 0.04, 0.05, 0.06, 0.07]"

definition interest_ranges :: "real list" where
  "interest_ranges = [0.04, 0.05, 0.06, 0.07, 0.08]"

text \<open>The inner loop: one row of the matrix, for one interest rate.\<close>

fun matrix_row ::
  "(real list \<Rightarrow> real option) \<Rightarrow> inputs \<Rightarrow> real \<Rightarrow> real \<Rightarrow> real \<Rightarrow> real list
     \<Rightarrow> py_error + real option list" where
  "matrix_row irr g purchase_price loan_amount ir [] = Inr []"
| "matrix_row irr g purchase_price loan_amount ir (cg # cgs) =
     (case calculate_scenario irr g purchase_price loan_amount ir cg of
        Inl e \<Rightarrow> Inl e
      | Inr res \<Rightarrow>
          (case matrix_row irr g purchase_price loan_amount ir cgs of
             Inl e \<Rightarrow> Inl e
           | Inr row \<Rightarrow> Inr (IRR_Post_Tax res # row)))"

text \<open>The outer loop over the interest rates.\<close>

fun matrix_data ::
  "(real list \<Rightarrow> real option) \<Rightarrow> inputs \<Rightarrow> real \<Rightarrow> real \<Rightarrow> real list \<Rightarrow> real list
     \<Rightarrow> py_error + real option list list" where
  "matrix_data irr g purchase_price loan_amount [] cgs = Inr []"
| "matrix_data irr g purchase_price loan_amount (ir # irs) cgs =
     (case matrix_row irr g purchase_price loan_amount ir cgs of
        Inl e \<Rightarrow> Inl e
      | Inr row \<Rightarrow>
          (case matrix_data irr g purchase_price loan_amount irs cgs of
             Inl e \<Rightarrow> Inl e
           | Inr rows \<Rightarrow> Inr (row # rows)))"

subsection \<open>The parameter domain\<close>

text \<open>
  The invariant of the specification's parameter record: every rate field lies in
  \<open>[0, 1]\<close>, the interest-only period does not exceed the loan term, and the holding
  period is at least one year.
\<close>

definition in_domain :: "inputs \<Rightarrow> real \<Rightarrow> real \<Rightarrow> bool" where
  "in_domain g i_rate cap_growth \<longleftrightarrow>
     0 \<le> i_rate \<and> i_rate \<le> 1 \<and>
     0 \<le> cap_growth \<and> cap_growth \<le> 1 \<and>
     0 \<le> vacancy_rate g \<and> vacancy_rate g \<le> 1 \<and>
     0 \<le> marginal_tax_rate g \<and> marginal_tax_rate g \<le> 1 \<and>
     0 \<le> cpi_rate g \<and> cpi_rate g \<le> 1 \<and>
     interest_only_period g \<le> loan_term g \<and>
     1 \<le> holding_period g"

text \<open>The marginal tax rates offered by the selection box of line 27.\<close>

definition tax_rates :: "real list" where
  "tax_rates = [0.0, 0.19, 0.325, 0.37, 0.45, 0.47]"

text \<open>The end-to-end example of the specification (the defaults of the sidebar).\<close>

definition example_inputs :: inputs where
  "example_inputs =
     \<lparr>loan_term = 30, interest_only_period = 0, weekly_rent = 600, vacancy_rate = 0.03,
      annual_opex = 6000, land_tax = 0, marginal_tax_rate = 0.37, cpi_rate = 0.025,
      holding_period = 10\<rparr>"

text \<open>
  A fully interest-only loan (interest-only period equal to the loan term) held for
  one year.
\<close>

definition interest_only_inputs :: inputs where
  "interest_only_inputs =
     \<lparr>loan_term = 10, interest_only_period = 10, weekly_rent = 600, vacancy_rate = 0.03,
      annual_opex = 6000, land_tax = 0, marginal_tax_rate = 0.37, cpi_rate = 0.025,
      holding_period = 1\<rparr>"

text \<open>
  A one-year holding with no rent, no tax and no growth, whose operating expenses
  equal the net sale proceeds of a purchase at 100000.
\<close>

definition break_even_inputs :: inputs where
  "break_even_inputs =
     \<lparr>loan_term = 10, interest_only_period = 0, weekly_rent = 0, vacancy_rate = 0,
      annual_opex = 97500, land_tax = 0, marginal_tax_rate = 0, cpi_rate = 0,
      holding_period = 1\<rparr>"

subsection \<open>The IRR solver\<close>

text \<open>
  Modelled from the spec: the net present value that the IRR solver (\<^verbatim>\<open>npf.irr\<close> of
  numpy_financial, which is not part of the repository) brings to zero: the stream
  discounted at the rate \<open>r\<close>, period 0 undiscounted. \<open>npv_from k\<close> discounts the first
  entry by \<open>k\<close> periods.
\<close>

fun npv_from :: "nat \<Rightarrow> real \<Rightarrow> real list \<Rightarrow> real" where
  "npv_from k r [] = 0"
| "npv_from k r (cf # cfs) = cf / (1 + r) ^ k + npv_from (Suc k) r cfs"

definition npv :: "real \<Rightarrow> real list \<Rightarrow> real" where
  "npv r cfs = npv_from 0 r cfs"

text \<open>A stream whose entries are all positive or all negative.\<close>

definition same_sign :: "real list \<Rightarrow> bool" where
  "same_sign cfs \<longleftrightarrow> list_all (\<lambda>x. 0 < x) cfs \<or> list_all (\<lambda>x. x < 0) cfs"

text \<open>
  Modelled from the spec: the contract of the IRR solver, which is not part of the
  repository. It returns a rate or "no solution" (\<open>None\<close>), and a rate that it returns
  is a discount rate at which the net present value of the stream is zero. A discount
  rate lies above \<open>-100%\<close>, so that the discount factor \<open>1 + r\<close> is positive.
\<close>

definition irr_contract :: "(real list \<Rightarrow> real option) \<Rightarrow> bool" where
  "irr_contract irr \<longleftrightarrow> (\<forall>cfs r. irr cfs = Some r \<longrightarrow> - 1 < r \<and> npv r cfs = 0)"

text \<open>
  Modelled from the spec: one such solver, a numerical root-find with a bounded iteration
  count. It bisects a bracket \<open>[lo, hi]\<close> and reports no solution when the net present
  value has the same sign at both ends, or when the \<open>n\<close> iterations are used up.
\<close>

fun bisect :: "nat \<Rightarrow> real \<Rightarrow> real \<Rightarrow> real list \<Rightarrow> real option" where
  "bisect 0 lo hi cfs = None"
| "bisect (Suc n) lo hi cfs =
     (let mid = (lo + hi) / 2 in
      if npv mid cfs = 0 then Some mid
      else if (npv lo cfs < 0) = (npv mid cfs < 0) then bisect n mid hi cfs
      else bisect n lo mid cfs)"

definition bisection_irr :: "nat \<Rightarrow> real \<Rightarrow> real \<Rightarrow> real list \<Rightarrow> real option" where
  "bisection_irr n lo hi cfs =
     (if npv lo cfs = 0 then Some lo
      else if npv hi cfs = 0 then Some hi
      else if (npv lo cfs < 0) = (npv hi cfs < 0) then None
      else bisect n lo hi cfs)"

subsection \<open>Auxiliary definitions for the proofs\<close>

text \<open>The loop state after the iterations for the years \<open>0..k\<close>.\<close>

definition state_after ::
  "inputs \<Rightarrow> real \<Rightarrow> real \<Rightarrow> real \<Rightarrow> real \<Rightarrow> nat \<Rightarrow> loop_state" where
  "state_after g p_price l_amount i_rate cap_growth k =
     run_years g p_price l_amount i_rate cap_growth (init_state g p_price l_amount) [0..int k]"

text \<open>
  A solver that reports NaN on every stream; it instantiates the parameter \<open>irr\<close>
  in the closed examples below.
\<close>

definition irr_nan :: "real list \<Rightarrow> real option" where
  "irr_nan cfs = None"

section \<open>Properties of the loop\<close>

lemma run_years_snoc:
  "run_years g p l i c s (ys @ [y]) = year_step g p l i c (run_years g p l i c s ys) y"
  by (induction ys arbitrary: s) simp_all

lemma state_after_0:
  "state_after g p l i c 0 = year_step g p l i c (init_state g p l) 0"
  by (simp add: state_after_def)

lemma state_after_Suc:
  "state_after g p l i c (Suc k) = year_step g p l i c (state_after g p l i c k) (int k + 1)"
proof -
  have "[0..int (Suc k)] = [0..int k] @ [int k + 1]"
    using upto_rec2 [of 0 "int (Suc k)"] by (simp add: add.commute)
  then show ?thesis
    by (simp add: state_after_def run_years_snoc)
qed

lemma run_loop_state_after:
  "0 \<le> holding_period g \<Longrightarrow>
   run_loop g p l i c = state_after g p l i c (nat (holding_period g))"
  by (simp add: run_loop_def state_after_def)

lemma year_step_0:
  "year_step g p l i c s 0 =
     s\<lparr>data := data s @
        [\<lparr>Year = 0, Value = p, Loan = l, Rent = 0, Opex = 0, NOI = 0,
          Interest = 0, Principal = 0, Tax = 0, Pre_Tax_CF = 0,
          Post_Tax_CF = - initial_equity p l\<rparr>]\<rparr>"
  by (simp add: year_step_def)

lemma data_year_step:
  "\<exists>row. data (year_step g p l i c s y) = data s @ [row]"
  by (simp add: year_step_def Let_def)

lemma length_data_state_after: "length (data (state_after g p l i c k)) = Suc k"
proof (induction k)
  case 0
  show ?case by (simp add: state_after_0 year_step_0 init_state_def)
next
  case (Suc k)
  obtain row where "data (state_after g p l i c (Suc k)) = data (state_after g p l i c k) @ [row]"
    using data_year_step [of g p l i c "state_after g p l i c k" "int k + 1"]
    by (auto simp: state_after_Suc)
  with Suc show ?case by simp
qed

lemma nth_data_state_after:
  "j \<le> k \<Longrightarrow> data (state_after g p l i c k) ! j = data (state_after g p l i c j) ! j"
proof (induction k)
  case 0
  then show ?case by simp
next
  case (Suc k)
  show ?case
  proof (cases "j = Suc k")
    case True
    then show ?thesis by simp
  next
    case False
    with Suc.prems have jk: "j \<le> k" by simp
    obtain row where "data (state_after g p l i c (Suc k)) = data (state_after g p l i c k) @ [row]"
      using data_year_step [of g p l i c "state_after g p l i c k" "int k + 1"]
      by (auto simp: state_after_Suc)
    then have "data (state_after g p l i c (Suc k)) ! j = data (state_after g p l i c k) ! j"
      using jk by (simp add: nth_append length_data_state_after)
    with Suc.IH [OF jk] show ?thesis by simp
  qed
qed

lemma year_step_pos:
  "y \<noteq> 0 \<Longrightarrow>
   year_step g p l i c s y =
     (let rent = current_rent s * (if y > 1 then 1 + cpi_rate g else 1);
          opex = current_opex s * (if y > 1 then 1 + cpi_rate g else 1);
          ip = fst (loan_calcs g i (current_loan s) y);
          pp = snd (loan_calcs g i (current_loan s) y);
          loan = max 0 (current_loan s - pp);
          tax = (rent - opex - ip - (if y \<le> 10 then 6000 else 0)) * marginal_tax_rate g
      in \<lparr>current_loan = loan,
          current_value = current_value s * (1 + c),
          current_rent = rent,
          current_opex = opex,
          total_principal_paid = total_principal_paid s + pp,
          data = data s @
            [\<lparr>Year = y, Value = current_value s * (1 + c), Loan = loan, Rent = rent,
              Opex = opex, NOI = rent - opex, Interest = ip, Principal = pp, Tax = tax,
              Pre_Tax_CF = rent - opex - ip - pp, Post_Tax_CF = rent - opex - ip - pp - tax\<rparr>],
          cash_flows_pre_tax =
            (if y < holding_period g then cash_flows_pre_tax s @ [rent - opex - ip - pp]
             else cash_flows_pre_tax s),
          cash_flows_post_tax =
            (if y < holding_period g then cash_flows_post_tax s @ [rent - opex - ip - pp - tax]
             else cash_flows_post_tax s)\<rparr>)"
  by (simp add: year_step_def Let_def max_def)

lemma state_after_Suc_unfold:
  "state_after g p l i c (Suc k) =
     (let s = state_after g p l i c k;
          y = int k + 1;
          rent = current_rent s * (if y > 1 then 1 + cpi_rate g else 1);
          opex = current_opex s * (if y > 1 then 1 + cpi_rate g else 1);
          ip = fst (loan_calcs g i (current_loan s) y);
          pp = snd (loan_calcs g i (current_loan s) y);
          loan = max 0 (current_loan s - pp);
          tax = (rent - opex - ip - (if y \<le> 10 then 6000 else 0)) * marginal_tax_rate g
      in \<lparr>current_loan = loan,
          current_value = current_value s * (1 + c),
          current_rent = rent,
          current_opex = opex,
          total_principal_paid = total_principal_paid s + pp,
          data = data s @
            [\<lparr>Year = y, Value = current_value s * (1 + c), Loan = loan, Rent = rent,
              Opex = opex, NOI = rent - opex, Interest = ip, Principal = pp, Tax = tax,
              Pre_Tax_CF = rent - opex - ip - pp, Post_Tax_CF = rent - opex - ip - pp - tax\<rparr>],
          cash_flows_pre_tax =
            (if y < holding_period g then cash_flows_pre_tax s @ [rent - opex - ip - pp]
             else cash_flows_pre_tax s),
          cash_flows_post_tax =
            (if y < holding_period g then cash_flows_post_tax s @ [rent - opex - ip - pp - tax]
             else cash_flows_post_tax s)\<rparr>)"
proof -
  have "int k + 1 \<noteq> 0" by simp
  from year_step_pos [OF this, of g p l i c "state_after g p l i c k"]
  show ?thesis
    by (simp add: state_after_Suc Let_def)
qed

lemma current_rent_state_after:
  "current_rent (state_after g p l i c k) =
     weekly_rent g * 52 * (1 - vacancy_rate g) * (1 + cpi_rate g) ^ (k - 1)"
proof (induction k)
  case 0
  show ?case by (simp add: state_after_0 year_step_0 init_state_def)
next
  case (Suc k)
  show ?case
  proof (cases k)
    case 0
    with Suc show ?thesis by (simp add: state_after_Suc_unfold Let_def)
  next
    case (Suc j)
    with Suc.IH show ?thesis by (simp add: state_after_Suc_unfold Let_def)
  qed
qed

lemma current_opex_state_after:
  "current_opex (state_after g p l i c k) =
     (annual_opex g + land_tax g) * (1 + cpi_rate g) ^ (k - 1)"
proof (induction k)
  case 0
  show ?case by (simp add: state_after_0 year_step_0 init_state_def)
next
  case (Suc k)
  show ?case
  proof (cases k)
    case 0
    with Suc show ?thesis by (simp add: state_after_Suc_unfold Let_def)
  next
    case (Suc j)
    with Suc.IH show ?thesis by (simp add: state_after_Suc_unfold Let_def)
  qed
qed

lemma current_value_state_after:
  "current_value (state_after g p l i c k) = p * (1 + c) ^ k"
proof (induction k)
  case 0
  show ?case by (simp add: state_after_0 year_step_0 init_state_def)
next
  case (Suc k)
  then show ?case by (simp add: state_after_Suc_unfold Let_def)
qed

text \<open>The row of year k is the last row after k years.\<close>

lemma row_0: "data (state_after g p l i c 0) ! 0 =
    \<lparr>Year = 0, Value = p, Loan = l, Rent = 0, Opex = 0, NOI = 0,
          Interest = 0, Principal = 0, Tax = 0, Pre_Tax_CF = 0,
          Post_Tax_CF = - initial_equity p l\<rparr>"
  by (simp add: state_after_0 year_step_0 init_state_def)

lemma row_Suc:
  "data (state_after g p l i c (Suc k)) ! Suc k =
     (let s = state_after g p l i c k;
          s' = state_after g p l i c (Suc k);
          ip = fst (loan_calcs g i (current_loan s) (int k + 1));
          pp = snd (loan_calcs g i (current_loan s) (int k + 1));
          noi = current_rent s' - current_opex s';
          tax = (noi - ip - (if int k + 1 \<le> 10 then 6000 else 0)) * marginal_tax_rate g
      in \<lparr>Year = int k + 1, Value = current_value s', Loan = current_loan s',
          Rent = current_rent s', Opex = current_opex s', NOI = noi, Interest = ip,
          Principal = pp, Tax = tax, Pre_Tax_CF = noi - ip - pp,
          Post_Tax_CF = noi - ip - pp - tax\<rparr>)"
proof -
  have "length (data (state_after g p l i c k)) = Suc k"
    by (rule length_data_state_after)
  then show ?thesis
    by (simp add: state_after_Suc_unfold Let_def nth_append)
qed

lemma pmt_rate_0: "0 < n \<Longrightarrow> - pmt 0 n pv = pv / real_of_int n"
  by (simp add: pmt_def)

lemma pmt_principal_part:
  assumes i: "0 < i" and n: "0 < n"
  shows "- pmt i n pv - pv * i = pv * i / ((1 + i) ^ nat n - 1)"
proof -
  have "1 + real (nat n) * i \<le> (1 + i) ^ nat n"
    using i by (intro Bernoulli_inequality) simp
  moreover have "i \<le> real (nat n) * i"
    using i n by simp
  ultimately have d: "0 < (1 + i) ^ nat n - 1"
    using i by linarith
  then show ?thesis
    using i by (simp add: pmt_def Let_def field_simps)
qed

lemma pmt_principal_bounds:
  assumes i: "0 \<le> i" and n: "0 < n" and pv: "0 \<le> pv"
  shows "0 \<le> - pmt i n pv - pv * i" and "- pmt i n pv - pv * i \<le> pv"
proof -
  show "0 \<le> - pmt i n pv - pv * i"
  proof (cases "i = 0")
    case True
    with n pv show ?thesis by (simp add: pmt_rate_0)
  next
    case False
    with i have ipos: "0 < i" by simp
    have "1 + real (nat n) * i \<le> (1 + i) ^ nat n"
      using ipos by (intro Bernoulli_inequality) simp
    moreover have "i \<le> real (nat n) * i"
      using ipos n by simp
    ultimately have d: "0 < (1 + i) ^ nat n - 1"
      using ipos by linarith
    then show ?thesis
      using ipos pv by (simp add: pmt_principal_part [OF ipos n])
  qed
  show "- pmt i n pv - pv * i \<le> pv"
  proof (cases "i = 0")
    case True
    have n1: "1 \<le> real_of_int n" using n by simp
    have "pv * 1 \<le> pv * real_of_int n"
      using n1 pv by (rule mult_left_mono)
    then have "pv / real_of_int n \<le> pv"
      using n by (simp add: pos_divide_le_eq)
    with True n show ?thesis by (simp add: pmt_rate_0)
  next
    case False
    with i have ipos: "0 < i" by simp
    have "1 + real (nat n) * i \<le> (1 + i) ^ nat n"
      using ipos by (intro Bernoulli_inequality) simp
    moreover have "i \<le> real (nat n) * i"
      using ipos n by simp
    ultimately have d: "i \<le> (1 + i) ^ nat n - 1"
      by linarith
    then have d0: "0 < (1 + i) ^ nat n - 1" using ipos by linarith
    have "pv * i \<le> pv * ((1 + i) ^ nat n - 1)"
      using d pv by (rule mult_left_mono)
    then have "pv * i / ((1 + i) ^ nat n - 1) \<le> pv"
      using d0 by (simp add: pos_divide_le_eq)
    then show ?thesis
      by (simp add: pmt_principal_part [OF ipos n])
  qed
qed

lemma loan_calcs_principal_bounds:
  assumes "0 \<le> i" and "0 \<le> loan"
  shows "0 \<le> snd (loan_calcs g i loan y)" and "snd (loan_calcs g i loan y) \<le> loan"
  using assms pmt_principal_bounds [of i "loan_term g - (y - 1)" loan]
  by (simp_all add: loan_calcs_def Let_def)

lemma loan_calcs_interest_only:
  "interest_only_period g = loan_term g \<Longrightarrow> snd (loan_calcs g i loan y) = 0"
  by (simp add: loan_calcs_def Let_def)

lemma loan_calcs_rate_0:
  "interest_only_period g < y \<Longrightarrow> 0 < loan_term g - (y - 1) \<Longrightarrow>
   loan_calcs g 0 loan y = (0, loan / real_of_int (loan_term g - (y - 1)))"
  using pmt_rate_0 [of "loan_term g - (y - 1)" loan]
  by (simp add: loan_calcs_def Let_def)

lemma loan_invariant:
  assumes "0 \<le> i" and "0 \<le> l"
  shows "0 \<le> current_loan (state_after g p l i c k) \<and>
         current_loan (state_after g p l i c k) + total_principal_paid (state_after g p l i c k) = l"
proof (induction k)
  case 0
  show ?case using assms by (simp add: state_after_0 year_step_0 init_state_def)
next
  case (Suc k)
  then have nn: "0 \<le> current_loan (state_after g p l i c k)" by simp
  from loan_calcs_principal_bounds [OF assms(1) nn, of g "int k + 1"] Suc
  show ?case
    by (simp add: state_after_Suc_unfold Let_def max_def)
qed

lemma loan_step:
  assumes "0 \<le> i" and "0 \<le> l"
  shows "current_loan (state_after g p l i c (Suc k)) =
           current_loan (state_after g p l i c k)
             - snd (loan_calcs g i (current_loan (state_after g p l i c k)) (int k + 1))"
proof -
  have nn: "0 \<le> current_loan (state_after g p l i c k)"
    using loan_invariant [OF assms] by simp
  from loan_calcs_principal_bounds [OF assms(1) nn, of g "int k + 1"]
  show ?thesis
    by (simp add: state_after_Suc_unfold Let_def max_def)
qed

lemma Loan_row: "Loan (data (state_after g p l i c k) ! k) = current_loan (state_after g p l i c k)"
proof (cases k)
  case 0
  then show ?thesis by (simp add: row_0) (simp add: state_after_0 year_step_0 init_state_def)
next
  case (Suc j)
  then show ?thesis by (simp add: row_Suc Let_def)
qed

lemma data_state_after_Suc:
  "data (state_after g p l i c (Suc k)) =
     data (state_after g p l i c k) @ [data (state_after g p l i c (Suc k)) ! Suc k]"
proof -
  obtain row where r: "data (state_after g p l i c (Suc k)) = data (state_after g p l i c k) @ [row]"
    using data_year_step [of g p l i c "state_after g p l i c k" "int k + 1"]
    by (auto simp: state_after_Suc)
  then have "data (state_after g p l i c (Suc k)) ! Suc k = row"
    by (simp add: nth_append length_data_state_after)
  with r show ?thesis by simp
qed

lemma data_state_after_ne: "data (state_after g p l i c k) \<noteq> []"
  using length_data_state_after [of g p l i c k] by auto

lemma last_data_state_after:
  "last (data (state_after g p l i c k)) = data (state_after g p l i c k) ! k"
  using length_data_state_after [of g p l i c k] data_state_after_ne [of g p l i c k]
  by (simp add: last_conv_nth)

lemma cash_flows_state_after:
  "int k < holding_period g \<Longrightarrow>
   cash_flows_pre_tax (state_after g p l i c k) =
     - initial_equity p l # map Pre_Tax_CF (tl (data (state_after g p l i c k))) \<and>
   cash_flows_post_tax (state_after g p l i c k) =
     - initial_equity p l # map Post_Tax_CF (tl (data (state_after g p l i c k)))"
proof (induction k)
  case 0
  show ?case by (simp add: state_after_0 year_step_0 init_state_def)
next
  case (Suc k)
  then have IH: "cash_flows_pre_tax (state_after g p l i c k) =
       - initial_equity p l # map Pre_Tax_CF (tl (data (state_after g p l i c k)))"
     "cash_flows_post_tax (state_after g p l i c k) =
       - initial_equity p l # map Post_Tax_CF (tl (data (state_after g p l i c k)))"
    by simp_all
  have lt: "int k + 1 < holding_period g" using Suc.prems by simp
  have ne: "data (state_after g p l i c k) \<noteq> []" by (rule data_state_after_ne)
  show ?case
    using lt ne IH by (simp add: state_after_Suc_unfold Let_def)
qed

lemma cash_flows_final_year:
  "holding_period g = int (Suc k) \<Longrightarrow>
   cash_flows_pre_tax (state_after g p l i c (Suc k)) = cash_flows_pre_tax (state_after g p l i c k) \<and>
   cash_flows_post_tax (state_after g p l i c (Suc k)) = cash_flows_post_tax (state_after g p l i c k)"
  by (simp add: state_after_Suc_unfold Let_def)

lemma scenario_body_Inr:
  assumes "0 \<le> holding_period g"
  shows "scenario_body g p l i c =
     (let s = state_after g p l i c (nat (holding_period g));
          row = data s ! nat (holding_period g);
          cash_in = sum_list (map Post_Tax_CF (tl (data s))) + net_proceeds_post_tax g p row;
          cash_out = initial_equity p l + total_principal_paid s
      in Inr \<lparr>final_state =
                s\<lparr>cash_flows_post_tax :=
                    cash_flows_post_tax s @ [Post_Tax_CF row + net_proceeds_post_tax g p row],
                  cash_flows_pre_tax :=
                    cash_flows_pre_tax s @ [Pre_Tax_CF row + net_proceeds_pre_tax row]\<rparr>,
              final_row = row,
              total_cash_in = cash_in,
              total_cash_out = cash_out,
              coc_total_outlay = (if cash_out > 0 then cash_in / cash_out else 0)\<rparr>)"
  using assms
  by (simp add: scenario_body_def run_loop_state_after py_last_def data_state_after_ne
      last_data_state_after Let_def py_truediv_def drop_Suc)

lemma calculate_scenario_Inr:
  assumes "0 \<le> holding_period g"
  shows "\<exists>res v. calculate_scenario irr g p l i c = Inr res \<and>
           scenario_body g p l i c = Inr v \<and>
           Data res = data (state_after g p l i c (nat (holding_period g))) \<and>
           data (final_state v) = data (state_after g p l i c (nat (holding_period g))) \<and>
           Cash_on_Cash_Total res = coc_total_outlay v \<and>
           Net_Profit res = sum_list (cash_flows_post_tax (final_state v)) \<and>
           IRR_Post_Tax res = irr (cash_flows_post_tax (final_state v)) \<and>
           IRR_Pre_Tax res = irr (cash_flows_pre_tax (final_state v))"
  by (simp add: calculate_scenario_def scenario_body_Inr [OF assms] Let_def)

lemma in_domain_holding: "in_domain g i c \<Longrightarrow> 1 \<le> holding_period g"
  by (simp add: in_domain_def)

lemma row_fields:
  assumes "1 \<le> k"
  shows "Year (data (state_after g p l i c k) ! k) = int k"
    and "Rent (data (state_after g p l i c k) ! k) = current_rent (state_after g p l i c k)"
    and "Opex (data (state_after g p l i c k) ! k) = current_opex (state_after g p l i c k)"
    and "NOI (data (state_after g p l i c k) ! k) =
           Rent (data (state_after g p l i c k) ! k) - Opex (data (state_after g p l i c k) ! k)"
    and "Interest (data (state_after g p l i c k) ! k) =
           fst (loan_calcs g i (current_loan (state_after g p l i c (k - 1))) (int k))"
    and "Principal (data (state_after g p l i c k) ! k) =
           snd (loan_calcs g i (current_loan (state_after g p l i c (k - 1))) (int k))"
    and "Tax (data (state_after g p l i c k) ! k) =
           (NOI (data (state_after g p l i c k) ! k) - Interest (data (state_after g p l i c k) ! k)
              - (if int k \<le> 10 then 6000 else 0)) * marginal_tax_rate g"
    and "Pre_Tax_CF (data (state_after g p l i c k) ! k) =
           NOI (data (state_after g p l i c k) ! k) - Interest (data (state_after g p l i c k) ! k)
             - Principal (data (state_after g p l i c k) ! k)"
    and "Post_Tax_CF (data (state_after g p l i c k) ! k) =
           Pre_Tax_CF (data (state_after g p l i c k) ! k) - Tax (data (state_after g p l i c k) ! k)"
proof -
  from assms obtain j where k: "k = Suc j" by (cases k) simp_all
  have y: "int j + 1 = int (Suc j)" by simp
  show "Year (data (state_after g p l i c k) ! k) = int k"
    unfolding k by (simp add: row_Suc Let_def)
  show "Rent (data (state_after g p l i c k) ! k) = current_rent (state_after g p l i c k)"
    unfolding k by (simp add: row_Suc Let_def)
  show "Opex (data (state_after g p l i c k) ! k) = current_opex (state_after g p l i c k)"
    unfolding k by (simp add: row_Suc Let_def)
  show "NOI (data (state_after g p l i c k) ! k) =
           Rent (data (state_after g p l i c k) ! k) - Opex (data (state_after g p l i c k) ! k)"
    unfolding k by (simp add: row_Suc Let_def)
  show "Interest (data (state_after g p l i c k) ! k) =
           fst (loan_calcs g i (current_loan (state_after g p l i c (k - 1))) (int k))"
    unfolding k by (simp add: row_Suc Let_def y del: of_nat_Suc)
  show "Principal (data (state_after g p l i c k) ! k) =
           snd (loan_calcs g i (current_loan (state_after g p l i c (k - 1))) (int k))"
    unfolding k by (simp add: row_Suc Let_def y del: of_nat_Suc)
  show "Tax (data (state_after g p l i c k) ! k) =
           (NOI (data (state_after g p l i c k) ! k) - Interest (data (state_after g p l i c k) ! k)
              - (if int k \<le> 10 then 6000 else 0)) * marginal_tax_rate g"
    unfolding k by (simp add: row_Suc Let_def)
  show "Pre_Tax_CF (data (state_after g p l i c k) ! k) =
           NOI (data (state_after g p l i c k) ! k) - Interest (data (state_after g p l i c k) ! k)
             - Principal (data (state_after g p l i c k) ! k)"
    unfolding k by (simp add: row_Suc Let_def)
  show "Post_Tax_CF (data (state_after g p l i c k) ! k) =
           Pre_Tax_CF (data (state_after g p l i c k) ! k) - Tax (data (state_after g p l i c k) ! k)"
    unfolding k by (simp add: row_Suc Let_def)
qed

section \<open>The streams, the principal and the matrix\<close>

text \<open>The two streams at the end of the function, for a holding period of \<open>m + 1\<close> years.\<close>

lemma final_streams:
  assumes hm: "holding_period g = int (Suc m)"
  shows "\<exists>v. scenario_body g p l i c = Inr v \<and>
           data (final_state v) = data (state_after g p l i c (Suc m)) \<and>
           final_row v = data (state_after g p l i c (Suc m)) ! Suc m \<and>
           total_principal_paid (final_state v) = total_principal_paid (state_after g p l i c (Suc m)) \<and>
           cash_flows_pre_tax (final_state v) =
             (- initial_equity p l # map Pre_Tax_CF (tl (data (state_after g p l i c m))))
               @ [Pre_Tax_CF (final_row v) + net_proceeds_pre_tax (final_row v)] \<and>
           cash_flows_post_tax (final_state v) =
             (- initial_equity p l # map Post_Tax_CF (tl (data (state_after g p l i c m))))
               @ [Post_Tax_CF (final_row v) + net_proceeds_post_tax g p (final_row v)]"
proof -
  have hp: "0 \<le> holding_period g" using hm by simp
  have n: "nat (holding_period g) = Suc m" using hm by simp
  have mlt: "int m < holding_period g" using hm by simp
  show ?thesis
    using cash_flows_final_year [OF hm, of p l i c] cash_flows_state_after [OF mlt, of p l i c]
    by (simp add: scenario_body_Inr [OF hp] Let_def n)
qed

lemma nth_tl_data:
  "k < m \<Longrightarrow> tl (data (state_after g p l i c m)) ! k = data (state_after g p l i c (Suc k)) ! Suc k"
proof -
  assume k: "k < m"
  have "tl (data (state_after g p l i c m)) ! k = data (state_after g p l i c m) ! Suc k"
    using k by (simp add: nth_tl length_data_state_after)
  also have "\<dots> = data (state_after g p l i c (Suc k)) ! Suc k"
    using k by (intro nth_data_state_after) simp
  finally show ?thesis .
qed

text \<open>With a non-negative balance the principal payment lies between 0 and the balance.\<close>

lemma loan_antimono:
  assumes "0 \<le> i" and "0 \<le> l"
  shows "current_loan (state_after g p l i c (Suc k)) \<le> current_loan (state_after g p l i c k)"
proof -
  have nn: "0 \<le> current_loan (state_after g p l i c k)"
    using loan_invariant [OF assms] by simp
  from loan_calcs_principal_bounds(1) [OF assms(1) nn, of g "int k + 1"]
  show ?thesis
    unfolding loan_step [OF assms] by simp
qed

lemma data_take:
  assumes "k \<le> n"
  shows "data (state_after g p l i c k) = take (Suc k) (data (state_after g p l i c n))"
proof (rule nth_equalityI)
  show "length (data (state_after g p l i c k)) = length (take (Suc k) (data (state_after g p l i c n)))"
    using assms by (simp add: length_data_state_after)
next
  fix j assume "j < length (data (state_after g p l i c k))"
  then have jk: "j \<le> k" by (simp add: length_data_state_after)
  then have jn: "j \<le> n" using assms by simp
  show "data (state_after g p l i c k) ! j = take (Suc k) (data (state_after g p l i c n)) ! j"
    using jk nth_data_state_after [OF jk, of g p l i c] nth_data_state_after [OF jn, of g p l i c]
    by simp
qed

lemma total_principal_paid_sum:
  "total_principal_paid (state_after g p l i c k) =
     sum_list (map Principal (data (state_after g p l i c k)))"
proof (induction k)
  case 0
  show ?case by (simp add: state_after_0 year_step_0 init_state_def)
next
  case (Suc k)
  then show ?case by (simp add: state_after_Suc_unfold Let_def)
qed

lemma interest_only_loan:
  assumes io: "interest_only_period g = loan_term g" and l: "0 \<le> l"
  shows "current_loan (state_after g p l i c k) = l"
proof (induction k)
  case 0
  show ?case by (simp add: state_after_0 year_step_0 init_state_def)
next
  case (Suc k)
  then show ?case
    using l by (simp add: state_after_Suc_unfold Let_def loan_calcs_interest_only [OF io])
qed

text \<open>The one-year runs of the two small examples.\<close>

lemma interest_only_run:
  "Data (projr (calculate_scenario irr interest_only_inputs p l i c)) =
     data (state_after interest_only_inputs p l i c 1) \<and>
   Loan (data (state_after interest_only_inputs p l i c 1) ! 0) = l \<and>
   Loan (data (state_after interest_only_inputs p l i c 1) ! 1) = max 0 l \<and>
   Principal (data (state_after interest_only_inputs p l i c 1) ! 1) = 0 \<and>
   total_principal_paid (state_after interest_only_inputs p l i c 1) = 0"
proof -
  have hp: "0 \<le> holding_period interest_only_inputs" by (simp add: interest_only_inputs_def)
  have n: "nat (holding_period interest_only_inputs) = 1" by (simp add: interest_only_inputs_def)
  have io: "interest_only_period interest_only_inputs = loan_term interest_only_inputs"
    by (simp add: interest_only_inputs_def)
  have a: "Data (projr (calculate_scenario irr interest_only_inputs p l i c)) =
     data (state_after interest_only_inputs p l i c 1)"
    using calculate_scenario_Inr [OF hp, of irr p l i c] n by auto
  have s0: "current_loan (state_after interest_only_inputs p l i c 0) = l"
    by (simp add: state_after_0 year_step_0 init_state_def)
  have r0: "Loan (data (state_after interest_only_inputs p l i c 1) ! 0) = l"
    using nth_data_state_after [of 0 1 interest_only_inputs p l i c] by (simp add: row_0)
  have s1: "current_loan (state_after interest_only_inputs p l i c (Suc 0)) = max 0 l"
    using s0 by (simp add: state_after_Suc_unfold Let_def loan_calcs_interest_only [OF io])
  have r1: "Loan (data (state_after interest_only_inputs p l i c 1) ! 1) = max 0 l"
    using Loan_row [of interest_only_inputs p l i c 1] s1 by simp
  have p1: "Principal (data (state_after interest_only_inputs p l i c 1) ! 1) = 0"
    using row_fields(6) [of 1 interest_only_inputs p l i c]
    by (simp add: loan_calcs_interest_only [OF io])
  have t1: "total_principal_paid (state_after interest_only_inputs p l i c (Suc 0)) = 0"
    by (simp add: state_after_Suc_unfold Let_def loan_calcs_interest_only [OF io]
        state_after_0 year_step_0 init_state_def)
  show ?thesis using a r0 r1 p1 t1 by simp
qed

lemma break_even_run:
  "scenario_body break_even_inputs 100000 0 0 0 = Inr v \<Longrightarrow>
   total_cash_in v = 0 \<and> total_cash_out v = 106000 \<and> coc_total_outlay v = 0"
proof -
  assume v: "scenario_body break_even_inputs 100000 0 0 0 = Inr v"
  have hp: "0 \<le> holding_period break_even_inputs" by (simp add: break_even_inputs_def)
  have n: "nat (holding_period break_even_inputs) = Suc 0" by (simp add: break_even_inputs_def)
  have lc: "loan_calcs break_even_inputs 0 0 1 = (0, 0)"
    by (simp add: loan_calcs_def Let_def pmt_def break_even_inputs_def)
  have s0: "state_after break_even_inputs 100000 0 0 0 0 =
     \<lparr>current_loan = 0, current_value = 100000, current_rent = 0, current_opex = 97500,
      total_principal_paid = 0,
      data = [\<lparr>Year = 0, Value = 100000, Loan = 0, Rent = 0, Opex = 0, NOI = 0, Interest = 0,
               Principal = 0, Tax = 0, Pre_Tax_CF = 0, Post_Tax_CF = - 106000\<rparr>],
      cash_flows_pre_tax = [- 106000], cash_flows_post_tax = [- 106000]\<rparr>"
    by (simp add: state_after_0 year_step_0 init_state_def break_even_inputs_def
        initial_equity_def total_upfront_cost_def stamp_duty_def closing_costs_def)
  have s1: "state_after break_even_inputs 100000 0 0 0 (Suc 0) =
     \<lparr>current_loan = 0, current_value = 100000, current_rent = 0, current_opex = 97500,
      total_principal_paid = 0,
      data = [\<lparr>Year = 0, Value = 100000, Loan = 0, Rent = 0, Opex = 0, NOI = 0, Interest = 0,
               Principal = 0, Tax = 0, Pre_Tax_CF = 0, Post_Tax_CF = - 106000\<rparr>,
              \<lparr>Year = 1, Value = 100000, Loan = 0, Rent = 0, Opex = 97500, NOI = - 97500,
               Interest = 0, Principal = 0, Tax = 0, Pre_Tax_CF = - 97500,
               Post_Tax_CF = - 97500\<rparr>],
      cash_flows_pre_tax = [- 106000], cash_flows_post_tax = [- 106000]\<rparr>"
    unfolding state_after_Suc_unfold s0 Let_def
    by (simp add: lc) (simp add: break_even_inputs_def)
  have np: "net_proceeds_post_tax break_even_inputs 100000
              \<lparr>Year = 1, Value = 100000, Loan = 0, Rent = 0, Opex = 97500, NOI = - 97500,
               Interest = 0, Principal = 0, Tax = 0, Pre_Tax_CF = - 97500,
               Post_Tax_CF = - 97500\<rparr> = 97500"
    by (simp add: net_proceeds_post_tax_def sale_price_def selling_costs_def loan_balance_def
        cgt_payable_def break_even_inputs_def)
  have ie: "initial_equity 100000 0 = 106000"
    by (simp add: initial_equity_def total_upfront_cost_def stamp_duty_def closing_costs_def)
  show ?thesis
    using v by (auto simp: scenario_body_Inr [OF hp] Let_def n s1 np ie)
qed

text \<open>Both loops of the sensitivity matrix succeed and fill every cell.\<close>

lemma matrix_row_Inr:
  assumes "0 \<le> holding_period g"
  shows "\<exists>row. matrix_row irr g p l ir cgs = Inr row \<and> length row = length cgs \<and>
           (\<forall>j<length cgs. \<exists>res. calculate_scenario irr g p l ir (cgs ! j) = Inr res \<and>
                                row ! j = IRR_Post_Tax res)"
proof (induction cgs)
  case Nil
  show ?case by simp
next
  case (Cons cg cgs)
  then obtain row where row: "matrix_row irr g p l ir cgs = Inr row"
    and len: "length row = length cgs"
    and cells: "\<forall>j<length cgs. \<exists>res. calculate_scenario irr g p l ir (cgs ! j) = Inr res \<and>
                                row ! j = IRR_Post_Tax res"
    by blast
  from calculate_scenario_Inr [OF assms, of irr p l ir cg] obtain res where
    res: "calculate_scenario irr g p l ir cg = Inr res" by blast
  have m: "matrix_row irr g p l ir (cg # cgs) = Inr (IRR_Post_Tax res # row)"
    using res row by simp
  have "\<exists>r. calculate_scenario irr g p l ir ((cg # cgs) ! j) = Inr r \<and>
             (IRR_Post_Tax res # row) ! j = IRR_Post_Tax r"
    if "j < length (cg # cgs)" for j
  proof (cases j)
    case 0
    then show ?thesis using res by simp
  next
    case (Suc j')
    then show ?thesis using that cells by simp
  qed
  then show ?case using m len by simp
qed

lemma matrix_data_Inr:
  assumes "0 \<le> holding_period g"
  shows "\<exists>m. matrix_data irr g p l irs cgs = Inr m \<and> length m = length irs \<and>
           (\<forall>i<length irs. matrix_row irr g p l (irs ! i) cgs = Inr (m ! i))"
proof (induction irs)
  case Nil
  show ?case by simp
next
  case (Cons ir irs)
  then obtain m where m: "matrix_data irr g p l irs cgs = Inr m"
    and len: "length m = length irs"
    and rows: "\<forall>i<length irs. matrix_row irr g p l (irs ! i) cgs = Inr (m ! i)"
    by blast
  from matrix_row_Inr [OF assms, of irr p l ir cgs] obtain row where
    row: "matrix_row irr g p l ir cgs = Inr row" by blast
  have md: "matrix_data irr g p l (ir # irs) cgs = Inr (row # m)"
    using row m by simp
  have "matrix_row irr g p l ((ir # irs) ! i) cgs = Inr ((row # m) ! i)"
    if "i < length (ir # irs)" for i
  proof (cases i)
    case 0
    then show ?thesis using row by simp
  next
    case (Suc i')
    then show ?thesis using that rows by simp
  qed
  then show ?case using md len by simp
qed

section \<open>The IRR solver on same-sign streams\<close>

text \<open>
  For a rate above \<open>-100%\<close> every discount factor is positive, so the net present value
  of a non-empty stream of positive entries is positive, and that of negative entries
  negative.
\<close>

lemma npv_from_nonneg:
  "- 1 < r \<Longrightarrow> list_all (\<lambda>x. 0 < x) cfs \<Longrightarrow> 0 \<le> npv_from k r cfs"
proof (induction cfs arbitrary: k)
  case Nil
  show ?case by simp
next
  case (Cons cf cfs)
  have "0 < (1 + r) ^ k" using Cons.prems(1) by simp
  then have "0 \<le> cf / (1 + r) ^ k" using Cons.prems(2) by simp
  moreover have "0 \<le> npv_from (Suc k) r cfs" using Cons by simp
  ultimately show ?case by simp
qed

lemma npv_from_pos:
  assumes "- 1 < r" and "list_all (\<lambda>x. 0 < x) cfs" and "cfs \<noteq> []"
  shows "0 < npv_from k r cfs"
proof (cases cfs)
  case Nil
  with assms(3) show ?thesis by simp
next
  case (Cons cf rest)
  have "0 < (1 + r) ^ k" using assms(1) by simp
  then have "0 < cf / (1 + r) ^ k" using assms(2) Cons by simp
  moreover have "0 \<le> npv_from (Suc k) r rest"
    using npv_from_nonneg [OF assms(1), of rest "Suc k"] assms(2) Cons by simp
  ultimately show ?thesis using Cons by simp
qed

lemma npv_from_uminus: "npv_from k r (map uminus cfs) = - npv_from k r cfs"
  by (induction cfs arbitrary: k) simp_all

lemma npv_from_neg:
  assumes "- 1 < r" and "list_all (\<lambda>x. x < 0) cfs" and "cfs \<noteq> []"
  shows "npv_from k r cfs < 0"
proof -
  have "list_all (\<lambda>x. 0 < x) (map uminus cfs)"
    using assms(2) by (simp add: list_all_iff)
  moreover have "map uminus cfs \<noteq> []" using assms(3) by simp
  ultimately have "0 < npv_from k r (map uminus cfs)"
    using npv_from_pos [OF assms(1)] by blast
  then show ?thesis by (simp add: npv_from_uminus)
qed

lemma npv_same_sign_nonzero:
  "- 1 < r \<Longrightarrow> cfs \<noteq> [] \<Longrightarrow> same_sign cfs \<Longrightarrow> npv r cfs \<noteq> 0"
  using npv_from_pos [of r cfs 0] npv_from_neg [of r cfs 0]
  by (auto simp: npv_def same_sign_def)

lemma contract_same_sign:
  "irr_contract irr \<Longrightarrow> cfs \<noteq> [] \<Longrightarrow> same_sign cfs \<Longrightarrow> irr cfs = None"
proof (rule ccontr)
  assume c: "irr_contract irr" and ne: "cfs \<noteq> []" and ss: "same_sign cfs"
    and "irr cfs \<noteq> None"
  then obtain r where r: "irr cfs = Some r" by auto
  with c have "- 1 < r" and "npv r cfs = 0" by (auto simp: irr_contract_def)
  with npv_same_sign_nonzero [OF _ ne ss] show False by blast
qed

text \<open>The bisection reports a rate only at a root inside the bracket.\<close>

lemma bisect_root:
  "lo \<le> hi \<Longrightarrow> bisect n lo hi cfs = Some r \<Longrightarrow> lo \<le> r \<and> r \<le> hi \<and> npv r cfs = 0"
proof (induction n arbitrary: lo hi)
  case 0
  then show ?case by simp
next
  case (Suc n)
  let ?mid = "(lo + hi) / 2"
  have m: "lo \<le> ?mid" "?mid \<le> hi" using Suc.prems(1) by simp_all
  show ?case
  proof (cases "npv ?mid cfs = 0")
    case True
    with Suc.prems m show ?thesis by (auto simp: Let_def)
  next
    case False
    show ?thesis
    proof (cases "(npv lo cfs < 0) = (npv ?mid cfs < 0)")
      case True
      with False Suc.prems(2) have "bisect n ?mid hi cfs = Some r" by (simp add: Let_def)
      from Suc.IH [OF m(2) this] m show ?thesis by simp
    next
      case nt: False
      with False Suc.prems(2) have "bisect n lo ?mid cfs = Some r" by (simp add: Let_def)
      from Suc.IH [OF m(1) this] m show ?thesis by simp
    qed
  qed
qed

lemma bisection_irr_contract:
  assumes "- 1 < lo" and "lo \<le> hi"
  shows "irr_contract (bisection_irr n lo hi)"
  unfolding irr_contract_def
proof (intro allI impI)
  fix cfs r
  assume h: "bisection_irr n lo hi cfs = Some r"
  show "- 1 < r \<and> npv r cfs = 0"
  proof (cases "npv lo cfs = 0")
    case True
    then have "r = lo" using h by (simp add: bisection_irr_def)
    with True assms show ?thesis by simp
  next
    case lo0: False
    show ?thesis
    proof (cases "npv hi cfs = 0")
      case True
      then have "r = hi" using h lo0 by (simp add: bisection_irr_def)
      with True assms show ?thesis by simp
    next
      case hi0: False
      have "bisect n lo hi cfs = Some r"
        using h lo0 hi0 by (simp add: bisection_irr_def split: if_splits)
      from bisect_root [OF assms(2) this] assms(1) show ?thesis by simp
    qed
  qed
qed

lemma bisection_example:
  "bisection_irr 20 (- 1 / 2) (3 / 2) [- 100, 150] = Some (1 / 2)"
proof -
  have a: "npv (- 1 / 2) [- 100, 150] = 200" by (simp add: npv_def)
  have b: "npv (3 / 2) [- 100, 150] = - 40" by (simp add: npv_def)
  have c: "npv (1 / 2) [- 100, 150] = 0" by (simp add: npv_def)
  have m: "((- 1 / 2) + (3 / 2)) / 2 = (1 / 2 :: real)" by simp
  have "bisect (Suc 19) (- 1 / 2) (3 / 2) [- 100, 150] = Some (1 / 2)"
    unfolding bisect.simps Let_def m c by simp
  then have "bisect 20 (- 1 / 2) (3 / 2) [- 100, 150] = Some (1 / 2)" by simp
  then show ?thesis
    unfolding bisection_irr_def a b by simp
qed

text \<open>A one-year run at a loss: both streams are \<open>[-96000, -10000]\<close>.\<close>

lemma loss_run:
  "scenario_body break_even_inputs 100000 10000 0 0 = Inr v \<Longrightarrow>
   cash_flows_post_tax (final_state v) = [- 96000, - 10000] \<and>
   cash_flows_pre_tax (final_state v) = [- 96000, - 10000] \<and>
   coc_total_outlay v = - 10 / 97"
proof -
  assume v: "scenario_body break_even_inputs 100000 10000 0 0 = Inr v"
  have hp: "0 \<le> holding_period break_even_inputs" by (simp add: break_even_inputs_def)
  have n: "nat (holding_period break_even_inputs) = Suc 0" by (simp add: break_even_inputs_def)
  have lc: "loan_calcs break_even_inputs 0 10000 1 = (0, 1000)"
    by (simp add: loan_calcs_def Let_def pmt_def break_even_inputs_def)
  have s0: "state_after break_even_inputs 100000 10000 0 0 0 =
     \<lparr>current_loan = 10000, current_value = 100000, current_rent = 0, current_opex = 97500,
      total_principal_paid = 0,
      data = [\<lparr>Year = 0, Value = 100000, Loan = 10000, Rent = 0, Opex = 0, NOI = 0,
               Interest = 0, Principal = 0, Tax = 0, Pre_Tax_CF = 0, Post_Tax_CF = - 96000\<rparr>],
      cash_flows_pre_tax = [- 96000], cash_flows_post_tax = [- 96000]\<rparr>"
    by (simp add: state_after_0 year_step_0 init_state_def break_even_inputs_def
        initial_equity_def total_upfront_cost_def stamp_duty_def closing_costs_def)
  have s1: "state_after break_even_inputs 100000 10000 0 0 (Suc 0) =
     \<lparr>current_loan = 9000, current_value = 100000, current_rent = 0, current_opex = 97500,
      total_principal_paid = 1000,
      data = [\<lparr>Year = 0, Value = 100000, Loan = 10000, Rent = 0, Opex = 0, NOI = 0,
               Interest = 0, Principal = 0, Tax = 0, Pre_Tax_CF = 0, Post_Tax_CF = - 96000\<rparr>,
              \<lparr>Year = 1, Value = 100000, Loan = 9000, Rent = 0, Opex = 97500, NOI = - 97500,
               Interest = 0, Principal = 1000, Tax = 0, Pre_Tax_CF = - 98500,
               Post_Tax_CF = - 98500\<rparr>],
      cash_flows_pre_tax = [- 96000], cash_flows_post_tax = [- 96000]\<rparr>"
    unfolding state_after_Suc_unfold s0 Let_def
    by (simp add: lc) (simp add: break_even_inputs_def)
  have np: "net_proceeds_post_tax break_even_inputs 100000
              \<lparr>Year = 1, Value = 100000, Loan = 9000, Rent = 0, Opex = 97500, NOI = - 97500,
               Interest = 0, Principal = 1000, Tax = 0, Pre_Tax_CF = - 98500,
               Post_Tax_CF = - 98500\<rparr> = 88500"
    by (simp add: net_proceeds_post_tax_def sale_price_def selling_costs_def loan_balance_def
        cgt_payable_def break_even_inputs_def)
  have npp: "net_proceeds_pre_tax
              \<lparr>Year = 1, Value = 100000, Loan = 9000, Rent = 0, Opex = 97500, NOI = - 97500,
               Interest = 0, Principal = 1000, Tax = 0, Pre_Tax_CF = - 98500,
               Post_Tax_CF = - 98500\<rparr> = 88500"
    by (simp add: net_proceeds_pre_tax_def sale_price_def selling_costs_def loan_balance_def)
  have ie: "initial_equity 100000 10000 = 96000"
    by (simp add: initial_equity_def total_upfront_cost_def stamp_duty_def closing_costs_def)
  show ?thesis
    using v by (auto simp: scenario_body_Inr [OF hp] Let_def n s1 np npp ie)
qed

section \<open>The claims\<close>

subsection \<open>C1\<close>

text \<open>
  C1 (amended). For every in-domain parameter set the year-0 record has value = purchase
  price, loan = loan principal, and rent, opex, NOI, interest, principal, tax and pre-tax
  cash flow equal to 0; its post-tax cash-flow field holds the negative initial equity
  (line 61), which is also index 0 of both cash-flow streams.
\<close>

theorem year_0_record:
  assumes "in_domain g i c"
  shows "\<exists>res v. calculate_scenario irr g p l i c = Inr res \<and>
           scenario_body g p l i c = Inr v \<and>
           Data res ! 0 =
             \<lparr>Year = 0, Value = p, Loan = l, Rent = 0, Opex = 0, NOI = 0, Interest = 0,
              Principal = 0, Tax = 0, Pre_Tax_CF = 0, Post_Tax_CF = - initial_equity p l\<rparr> \<and>
           cash_flows_pre_tax (final_state v) ! 0 = - initial_equity p l \<and>
           cash_flows_post_tax (final_state v) ! 0 = - initial_equity p l"
proof -
  have hp1: "1 \<le> holding_period g" by (rule in_domain_holding [OF assms])
  then have hp: "0 \<le> holding_period g" by simp
  from hp1 obtain m where m: "nat (holding_period g) = Suc m"
    by (cases "nat (holding_period g)") simp_all
  then have hm: "holding_period g = int (Suc m)" using hp by linarith
  have mlt: "int m < holding_period g" using hm by simp
  have row: "data (state_after g p l i c (nat (holding_period g))) ! 0 =
               data (state_after g p l i c 0) ! 0"
    by (rule nth_data_state_after) simp
  have cf: "cash_flows_pre_tax (state_after g p l i c (Suc m)) ! 0 = - initial_equity p l"
           "cash_flows_post_tax (state_after g p l i c (Suc m)) ! 0 = - initial_equity p l"
    using cash_flows_final_year [OF hm, of p l i c] cash_flows_state_after [OF mlt, of p l i c]
    by simp_all
  have ne: "cash_flows_pre_tax (state_after g p l i c (Suc m)) \<noteq> []"
           "cash_flows_post_tax (state_after g p l i c (Suc m)) \<noteq> []"
    using cash_flows_final_year [OF hm, of p l i c] cash_flows_state_after [OF mlt, of p l i c]
    by simp_all
  show ?thesis
    using row cf ne
    by (simp add: calculate_scenario_def scenario_body_Inr [OF hp] Let_def row_0 m nth_append)
qed

text \<open>The instance at the specification's example.\<close>

theorem year_0_record_witness:
  "in_domain example_inputs 0.06 0.05 \<and>
   (\<exists>res v. calculate_scenario irr_nan example_inputs 750000 600000 0.06 0.05 = Inr res \<and>
      scenario_body example_inputs 750000 600000 0.06 0.05 = Inr v \<and>
      Data res ! 0 =
        \<lparr>Year = 0, Value = 750000, Loan = 600000, Rent = 0, Opex = 0, NOI = 0, Interest = 0,
         Principal = 0, Tax = 0, Pre_Tax_CF = 0, Post_Tax_CF = - 182000\<rparr> \<and>
      cash_flows_pre_tax (final_state v) ! 0 = - 182000 \<and>
      cash_flows_post_tax (final_state v) ! 0 = - 182000)"
proof -
  have h: "in_domain example_inputs 0.06 0.05"
    by (simp add: in_domain_def example_inputs_def)
  have e: "initial_equity 750000 600000 = 182000"
    by (simp add: initial_equity_def total_upfront_cost_def stamp_duty_def closing_costs_def)
  from year_0_record [OF h, of irr_nan 750000 600000] h e
  show ?thesis by simp
qed

text \<open>
  C1 as stated fails: at the specification's example the post-tax cash-flow field of the
  year-0 record is \<open>-182000\<close>, not 0.
\<close>

theorem year_0_post_tax_cf_counterexample:
  "in_domain example_inputs 0.06 0.05 \<and>
   marginal_tax_rate example_inputs \<in> set tax_rates \<and>
   Post_Tax_CF (Data (projr (calculate_scenario irr_nan example_inputs 750000 600000 0.06 0.05)) ! 0)
     = - 182000"
proof -
  have h: "in_domain example_inputs 0.06 0.05"
    by (simp add: in_domain_def example_inputs_def)
  have t: "marginal_tax_rate example_inputs \<in> set tax_rates"
    by (simp add: example_inputs_def tax_rates_def)
  have hp: "0 \<le> holding_period example_inputs" by (simp add: example_inputs_def)
  have row: "data (state_after example_inputs 750000 600000 0.06 0.05
                (nat (holding_period example_inputs))) ! 0 =
             data (state_after example_inputs 750000 600000 0.06 0.05 0) ! 0"
    by (rule nth_data_state_after) simp
  have e: "initial_equity 750000 600000 = 182000"
    by (simp add: initial_equity_def total_upfront_cost_def stamp_duty_def closing_costs_def)
  have "Post_Tax_CF (Data (projr (calculate_scenario irr_nan example_inputs 750000 600000 0.06 0.05)) ! 0)
     = - 182000"
    using row e
    by (simp add: calculate_scenario_def scenario_body_Inr [OF hp] Let_def row_0)
  with h t show ?thesis by simp
qed

subsection \<open>C2\<close>

text \<open>
  C2 (amended). For every in-domain parameter set both cash-flow streams have length
  holding period + 1; their index-0 entries are both the negative initial equity, which is
  strictly negative exactly when the total upfront cost exceeds the loan principal; for
  every interior year \<open>1 \<le> k < holding period\<close> the pre-tax entry minus the post-tax entry is
  that year's tax payable; and the final entries differ by the final year's tax payable
  plus the capital-gains tax.
\<close>

theorem cash_flow_streams:
  assumes "in_domain g i c"
  shows "\<exists>v. scenario_body g p l i c = Inr v \<and>
           int (length (cash_flows_pre_tax (final_state v))) = holding_period g + 1 \<and>
           int (length (cash_flows_post_tax (final_state v))) = holding_period g + 1 \<and>
           cash_flows_pre_tax (final_state v) ! 0 = - initial_equity p l \<and>
           cash_flows_post_tax (final_state v) ! 0 = - initial_equity p l \<and>
           (cash_flows_pre_tax (final_state v) ! 0 < 0 \<longleftrightarrow> l < total_upfront_cost p) \<and>
           (cash_flows_post_tax (final_state v) ! 0 < 0 \<longleftrightarrow> l < total_upfront_cost p) \<and>
           (\<forall>k. 1 \<le> k \<and> int k < holding_period g \<longrightarrow>
                cash_flows_pre_tax (final_state v) ! k - cash_flows_post_tax (final_state v) ! k
                  = Tax (data (final_state v) ! k)) \<and>
           cash_flows_pre_tax (final_state v) ! nat (holding_period g)
             - cash_flows_post_tax (final_state v) ! nat (holding_period g)
             = Tax (data (final_state v) ! nat (holding_period g))
                 + cgt_payable g p (final_row v)"
proof -
  have hp1: "1 \<le> holding_period g" by (rule in_domain_holding [OF assms])
  then obtain m where n: "nat (holding_period g) = Suc m"
    by (cases "nat (holding_period g)") simp_all
  then have hm: "holding_period g = int (Suc m)" using hp1 by linarith
  from final_streams [OF hm, of p l i c] obtain v where
    v: "scenario_body g p l i c = Inr v"
    and d: "data (final_state v) = data (state_after g p l i c (Suc m))"
    and fr: "final_row v = data (state_after g p l i c (Suc m)) ! Suc m"
    and pre: "cash_flows_pre_tax (final_state v) =
             (- initial_equity p l # map Pre_Tax_CF (tl (data (state_after g p l i c m))))
               @ [Pre_Tax_CF (final_row v) + net_proceeds_pre_tax (final_row v)]"
    and post: "cash_flows_post_tax (final_state v) =
             (- initial_equity p l # map Post_Tax_CF (tl (data (state_after g p l i c m))))
               @ [Post_Tax_CF (final_row v) + net_proceeds_post_tax g p (final_row v)]"
    by blast
  have len: "length (tl (data (state_after g p l i c m))) = m"
    by (simp add: length_data_state_after)
  have l1: "int (length (cash_flows_pre_tax (final_state v))) = holding_period g + 1"
    unfolding pre using len hm by simp
  have l2: "int (length (cash_flows_post_tax (final_state v))) = holding_period g + 1"
    unfolding post using len hm by simp
  have z1: "cash_flows_pre_tax (final_state v) ! 0 = - initial_equity p l"
    unfolding pre by simp
  have z2: "cash_flows_post_tax (final_state v) ! 0 = - initial_equity p l"
    unfolding post by simp
  have interior: "cash_flows_pre_tax (final_state v) ! k - cash_flows_post_tax (final_state v) ! k
                  = Tax (data (final_state v) ! k)"
    if k: "1 \<le> k \<and> int k < holding_period g" for k
  proof -
    from k obtain j where j: "k = Suc j" by (cases k) auto
    have jm: "j < m" using k hm j by simp
    have a: "cash_flows_pre_tax (final_state v) ! k =
               Pre_Tax_CF (data (state_after g p l i c k) ! k)"
      unfolding pre j using jm len by (simp add: nth_append nth_tl_data)
    have b: "cash_flows_post_tax (final_state v) ! k =
               Post_Tax_CF (data (state_after g p l i c k) ! k)"
      unfolding post j using jm len by (simp add: nth_append nth_tl_data)
    have r: "data (final_state v) ! k = data (state_after g p l i c k) ! k"
      unfolding d using jm j by (intro nth_data_state_after) simp
    have k1: "1 \<le> k" using k by simp
    show ?thesis
      unfolding a b r using row_fields(9) [OF k1, of g p l i c] by simp
  qed
  have last1: "cash_flows_pre_tax (final_state v) ! Suc m =
                 Pre_Tax_CF (final_row v) + net_proceeds_pre_tax (final_row v)"
    unfolding pre using len by (simp add: nth_append)
  have last2: "cash_flows_post_tax (final_state v) ! Suc m =
                 Post_Tax_CF (final_row v) + net_proceeds_post_tax g p (final_row v)"
    unfolding post using len by (simp add: nth_append)
  have sm: "1 \<le> Suc m" by simp
  have final: "cash_flows_pre_tax (final_state v) ! nat (holding_period g)
             - cash_flows_post_tax (final_state v) ! nat (holding_period g)
             = Tax (data (final_state v) ! nat (holding_period g))
                 + cgt_payable g p (final_row v)"
    unfolding n last1 last2 d
    using row_fields(9) [OF sm, of g p l i c]
    by (simp add: fr net_proceeds_post_tax_def net_proceeds_pre_tax_def)
  have s1: "cash_flows_pre_tax (final_state v) ! 0 < 0 \<longleftrightarrow> l < total_upfront_cost p"
    unfolding z1 by (simp add: initial_equity_def)
  have s2: "cash_flows_post_tax (final_state v) ! 0 < 0 \<longleftrightarrow> l < total_upfront_cost p"
    unfolding z2 by (simp add: initial_equity_def)
  show ?thesis
    using v l1 l2 z1 z2 s1 s2 interior final by blast
qed

text \<open>The instance at the specification's example, with interior year 3.\<close>

theorem cash_flow_streams_witness:
  "in_domain example_inputs 0.06 0.05 \<and>
   (\<exists>v. scenario_body example_inputs 750000 600000 0.06 0.05 = Inr v \<and>
      length (cash_flows_pre_tax (final_state v)) = 11 \<and>
      length (cash_flows_post_tax (final_state v)) = 11 \<and>
      cash_flows_pre_tax (final_state v) ! 0 = - 182000 \<and>
      cash_flows_post_tax (final_state v) ! 0 = - 182000 \<and>
      (600000::real) < total_upfront_cost 750000 \<and>
      cash_flows_pre_tax (final_state v) ! 0 < 0 \<and>
      cash_flows_post_tax (final_state v) ! 0 < 0 \<and>
      cash_flows_pre_tax (final_state v) ! 3 - cash_flows_post_tax (final_state v) ! 3
        = Tax (data (final_state v) ! 3) \<and>
      cash_flows_pre_tax (final_state v) ! 10 - cash_flows_post_tax (final_state v) ! 10
        = Tax (data (final_state v) ! 10) + cgt_payable example_inputs 750000 (final_row v))"
proof -
  have h: "in_domain example_inputs 0.06 0.05"
    by (simp add: in_domain_def example_inputs_def)
  have e: "initial_equity 750000 600000 = 182000"
    by (simp add: initial_equity_def total_upfront_cost_def stamp_duty_def closing_costs_def)
  have hp: "holding_period example_inputs = 10" by (simp add: example_inputs_def)
  from cash_flow_streams [OF h, of 750000 600000] obtain v where
    v: "scenario_body example_inputs 750000 600000 0.06 0.05 = Inr v"
    and l1: "int (length (cash_flows_pre_tax (final_state v))) = holding_period example_inputs + 1"
    and l2: "int (length (cash_flows_post_tax (final_state v))) = holding_period example_inputs + 1"
    and z1: "cash_flows_pre_tax (final_state v) ! 0 = - initial_equity 750000 600000"
    and z2: "cash_flows_post_tax (final_state v) ! 0 = - initial_equity 750000 600000"
    and s1: "cash_flows_pre_tax (final_state v) ! 0 < 0 \<longleftrightarrow> 600000 < total_upfront_cost 750000"
    and s2: "cash_flows_post_tax (final_state v) ! 0 < 0 \<longleftrightarrow> 600000 < total_upfront_cost 750000"
    and interior: "\<forall>k. 1 \<le> k \<and> int k < holding_period example_inputs \<longrightarrow>
                cash_flows_pre_tax (final_state v) ! k - cash_flows_post_tax (final_state v) ! k
                  = Tax (data (final_state v) ! k)"
    and final: "cash_flows_pre_tax (final_state v) ! nat (holding_period example_inputs)
             - cash_flows_post_tax (final_state v) ! nat (holding_period example_inputs)
             = Tax (data (final_state v) ! nat (holding_period example_inputs))
                 + cgt_payable example_inputs 750000 (final_row v)"
    by blast
  have i3: "cash_flows_pre_tax (final_state v) ! 3 - cash_flows_post_tax (final_state v) ! 3
        = Tax (data (final_state v) ! 3)"
    using interior [rule_format, of 3] by (simp add: hp)
  have u: "(600000::real) < total_upfront_cost 750000"
    by (simp add: total_upfront_cost_def stamp_duty_def closing_costs_def)
  show ?thesis
    using h v l1 l2 z1 z2 s1 s2 u i3 final by (simp add: hp e)
qed

text \<open>
  C2 as stated fails: with a positive total upfront cost (purchase price 100000) and a
  loan of 200000 the first entry of the stream is \<open>+94000\<close>.
\<close>

theorem first_entry_sign_counterexample:
  "in_domain example_inputs 0.06 0.05 \<and>
   marginal_tax_rate example_inputs \<in> set tax_rates \<and>
   0 < total_upfront_cost 100000 \<and>
   cash_flows_pre_tax (final_state (projr (scenario_body example_inputs 100000 200000 0.06 0.05))) ! 0
     = 94000"
proof -
  have h: "in_domain example_inputs 0.06 0.05"
    by (simp add: in_domain_def example_inputs_def)
  have t: "marginal_tax_rate example_inputs \<in> set tax_rates"
    by (simp add: example_inputs_def tax_rates_def)
  have u: "0 < total_upfront_cost 100000"
    by (simp add: total_upfront_cost_def stamp_duty_def closing_costs_def)
  have e: "initial_equity 100000 200000 = - 94000"
    by (simp add: initial_equity_def total_upfront_cost_def stamp_duty_def closing_costs_def)
  have hm: "holding_period example_inputs = int (Suc 9)" by (simp add: example_inputs_def)
  from final_streams [OF hm, of 100000 200000 "0.06" "0.05"] e
  have "cash_flows_pre_tax (final_state (projr (scenario_body example_inputs 100000 200000 0.06 0.05))) ! 0
     = 94000"
    by auto
  with h t u show ?thesis by simp
qed

subsection \<open>C3\<close>

text \<open>
  C3. For every in-domain parameter set and every year \<open>k \<ge> 1\<close> of the projection, the
  recorded rent is weekly rent \<open>\<times> 52 \<times> (1 - vacancy rate) \<times> (1 + CPI rate)^(k-1)\<close>, the
  recorded operating expenses are (annual operating expenses + land tax)
  \<open>\<times> (1 + CPI rate)^(k-1)\<close>, and NOI is their difference; year 1 carries no inflation.
\<close>

theorem rent_opex_year_k:
  assumes "in_domain g i c" and "1 \<le> k" and "int k \<le> holding_period g"
  shows "\<exists>res. calculate_scenario irr g p l i c = Inr res \<and>
           Year (Data res ! k) = int k \<and>
           Rent (Data res ! k) =
             weekly_rent g * 52 * (1 - vacancy_rate g) * (1 + cpi_rate g) ^ (k - 1) \<and>
           Opex (Data res ! k) = (annual_opex g + land_tax g) * (1 + cpi_rate g) ^ (k - 1) \<and>
           NOI (Data res ! k) = Rent (Data res ! k) - Opex (Data res ! k)"
proof -
  have hp: "0 \<le> holding_period g" using in_domain_holding [OF assms(1)] by simp
  from calculate_scenario_Inr [OF hp, of irr p l i c]
  obtain res where res: "calculate_scenario irr g p l i c = Inr res"
    and d: "Data res = data (state_after g p l i c (nat (holding_period g)))"
    by blast
  have kn: "k \<le> nat (holding_period g)" using assms(3) by simp
  have row: "Data res ! k = data (state_after g p l i c k) ! k"
    unfolding d by (rule nth_data_state_after [OF kn])
  show ?thesis
    using res row row_fields(1-4) [OF assms(2), of g p l i c]
    by (simp add: current_rent_state_after current_opex_state_after)
qed

text \<open>The instance at the specification's example, year 3.\<close>

theorem rent_opex_year_k_witness:
  "in_domain example_inputs 0.06 0.05 \<and> (1::nat) \<le> 3 \<and> int 3 \<le> holding_period example_inputs \<and>
   (\<exists>res. calculate_scenario irr_nan example_inputs 750000 600000 0.06 0.05 = Inr res \<and>
      Year (Data res ! 3) = 3 \<and>
      Rent (Data res ! 3) = 600 * 52 * (1 - 0.03) * (1 + 0.025) ^ 2 \<and>
      Opex (Data res ! 3) = 6000 * (1 + 0.025) ^ 2 \<and>
      NOI (Data res ! 3) = Rent (Data res ! 3) - Opex (Data res ! 3))"
proof -
  have h: "in_domain example_inputs 0.06 0.05"
    by (simp add: in_domain_def example_inputs_def)
  have k: "int 3 \<le> holding_period example_inputs"
    by (simp add: example_inputs_def)
  from rent_opex_year_k [OF h _ k, of irr_nan 750000 600000] h k
  show ?thesis by (simp add: example_inputs_def)
qed

subsection \<open>C4\<close>

text \<open>
  C4 (amended). For every in-domain parameter set with a non-negative loan principal, the
  loan balance recorded in the year records is never negative and does not increase from
  one year to the next.
\<close>

theorem loan_balance_monotone:
  assumes "in_domain g i c" and "0 \<le> l"
  shows "\<exists>res. calculate_scenario irr g p l i c = Inr res \<and>
           int (length (Data res)) = holding_period g + 1 \<and>
           (\<forall>k. int k \<le> holding_period g \<longrightarrow> 0 \<le> Loan (Data res ! k)) \<and>
           (\<forall>k. int k < holding_period g \<longrightarrow> Loan (Data res ! Suc k) \<le> Loan (Data res ! k))"
proof -
  have i0: "0 \<le> i" using assms(1) by (simp add: in_domain_def)
  have hp: "0 \<le> holding_period g" using in_domain_holding [OF assms(1)] by simp
  from calculate_scenario_Inr [OF hp, of irr p l i c]
  obtain res where res: "calculate_scenario irr g p l i c = Inr res"
    and d: "Data res = data (state_after g p l i c (nat (holding_period g)))"
    by blast
  have row: "Loan (Data res ! k) = current_loan (state_after g p l i c k)"
    if "int k \<le> holding_period g" for k
  proof -
    have kn: "k \<le> nat (holding_period g)" using that by simp
    show ?thesis
      unfolding d nth_data_state_after [OF kn] by (rule Loan_row)
  qed
  have len: "int (length (Data res)) = holding_period g + 1"
    unfolding d using hp by (simp add: length_data_state_after)
  have nonneg: "0 \<le> Loan (Data res ! k)" if "int k \<le> holding_period g" for k
    using row [OF that] loan_invariant [OF i0 assms(2), of g p c k] by simp
  have mono: "Loan (Data res ! Suc k) \<le> Loan (Data res ! k)" if "int k < holding_period g" for k
  proof -
    have a: "int (Suc k) \<le> holding_period g" and b: "int k \<le> holding_period g"
      using that by simp_all
    show ?thesis
      unfolding row [OF a] row [OF b] by (rule loan_antimono [OF i0 assms(2)])
  qed
  show ?thesis
    using res len nonneg mono by blast
qed

text \<open>The instance at the specification's example.\<close>

theorem loan_balance_monotone_witness:
  "in_domain example_inputs 0.06 0.05 \<and> (0::real) \<le> 600000 \<and>
   (\<exists>res. calculate_scenario irr_nan example_inputs 750000 600000 0.06 0.05 = Inr res \<and>
      length (Data res) = 11 \<and>
      0 \<le> Loan (Data res ! 10) \<and>
      Loan (Data res ! 5) \<le> Loan (Data res ! 4))"
proof -
  have h: "in_domain example_inputs 0.06 0.05"
    by (simp add: in_domain_def example_inputs_def)
  have hp: "holding_period example_inputs = 10" by (simp add: example_inputs_def)
  from loan_balance_monotone [OF h, of 600000 irr_nan 750000] obtain res where
    res: "calculate_scenario irr_nan example_inputs 750000 600000 0.06 0.05 = Inr res"
    and len: "int (length (Data res)) = holding_period example_inputs + 1"
    and nonneg: "\<forall>k. int k \<le> holding_period example_inputs \<longrightarrow> 0 \<le> Loan (Data res ! k)"
    and mono: "\<forall>k. int k < holding_period example_inputs \<longrightarrow>
                 Loan (Data res ! Suc k) \<le> Loan (Data res ! k)"
    by auto
  have a: "0 \<le> Loan (Data res ! 10)" using nonneg [rule_format, of 10] by (simp add: hp)
  have b: "Loan (Data res ! 5) \<le> Loan (Data res ! 4)"
    using mono [rule_format, of 4] by (simp add: hp)
  show ?thesis using h res len a b by (simp add: hp)
qed

text \<open>
  C4 as stated fails: the domain does not bound the loan principal from below, and with a
  principal of \<open>-100\<close> the year-0 record holds a negative balance, which the clamp of
  line 88 raises to 0 in year 1.
\<close>

theorem negative_loan_counterexample:
  "in_domain interest_only_inputs 0.06 0.05 \<and>
   marginal_tax_rate interest_only_inputs \<in> set tax_rates \<and>
   Loan (Data (projr (calculate_scenario irr_nan interest_only_inputs 750000 (- 100) 0.06 0.05)) ! 0)
     = - 100 \<and>
   Loan (Data (projr (calculate_scenario irr_nan interest_only_inputs 750000 (- 100) 0.06 0.05)) ! 1)
     = 0"
proof -
  have h: "in_domain interest_only_inputs 0.06 0.05"
    by (simp add: in_domain_def interest_only_inputs_def)
  have t: "marginal_tax_rate interest_only_inputs \<in> set tax_rates"
    by (simp add: interest_only_inputs_def tax_rates_def)
  show ?thesis
    using h t interest_only_run [of irr_nan 750000 "- 100" "0.06" "0.05"] by simp
qed

subsection \<open>C5\<close>

text \<open>
  C5 (amended). For every in-domain parameter set the function returns (no division
  fails), and the cash-on-cash multiple is 0 if initial equity + total principal paid
  \<open>\<le> 0\<close>, and otherwise the sum of the post-tax cash flows of the years 1..holding period
  plus the net proceeds post-tax, divided by initial equity + total principal paid. So it
  is 0 whenever the denominator is \<open>\<le> 0\<close>; with a positive denominator it is 0 exactly
  when the numerator is 0.
\<close>

theorem cash_on_cash_guard:
  assumes "in_domain g i c"
  shows "\<exists>res v. calculate_scenario irr g p l i c = Inr res \<and>
           scenario_body g p l i c = Inr v \<and>
           int (length (Data res)) = holding_period g + 1 \<and>
           final_row v = last (Data res) \<and>
           total_cash_in v =
             sum_list (map Post_Tax_CF (tl (Data res))) + net_proceeds_post_tax g p (final_row v) \<and>
           total_cash_out v = initial_equity p l + total_principal_paid (final_state v) \<and>
           Cash_on_Cash_Total res =
             (if total_cash_out v \<le> 0 then 0 else total_cash_in v / total_cash_out v) \<and>
           (total_cash_out v \<le> 0 \<longrightarrow> Cash_on_Cash_Total res = 0) \<and>
           (0 < total_cash_out v \<longrightarrow> (Cash_on_Cash_Total res = 0 \<longleftrightarrow> total_cash_in v = 0))"
proof -
  have hp: "0 \<le> holding_period g" using in_domain_holding [OF assms] by simp
  have len: "int (length (data (state_after g p l i c (nat (holding_period g))))) =
               holding_period g + 1"
    using hp by (simp add: length_data_state_after)
  show ?thesis
    using len
    by (simp add: calculate_scenario_def scenario_body_Inr [OF hp] Let_def
        last_data_state_after)
qed

text \<open>An instance where the loan exceeds the upfront cost, so that the denominator is negative.\<close>

theorem cash_on_cash_guard_witness:
  "in_domain interest_only_inputs 0.06 0.05 \<and>
   (\<exists>res v. calculate_scenario irr_nan interest_only_inputs 100000 200000 0.06 0.05 = Inr res \<and>
      scenario_body interest_only_inputs 100000 200000 0.06 0.05 = Inr v \<and>
      length (Data res) = 2 \<and>
      total_cash_out v = - 94000 \<and>
      Cash_on_Cash_Total res = 0)"
proof -
  have h: "in_domain interest_only_inputs 0.06 0.05"
    by (simp add: in_domain_def interest_only_inputs_def)
  have hp: "0 \<le> holding_period interest_only_inputs" by (simp add: interest_only_inputs_def)
  have n: "nat (holding_period interest_only_inputs) = 1" by (simp add: interest_only_inputs_def)
  have ie: "initial_equity 100000 200000 = - 94000"
    by (simp add: initial_equity_def total_upfront_cost_def stamp_duty_def closing_costs_def)
  from cash_on_cash_guard [OF h, of irr_nan 100000 200000] obtain res v where
    res: "calculate_scenario irr_nan interest_only_inputs 100000 200000 0.06 0.05 = Inr res"
    and v: "scenario_body interest_only_inputs 100000 200000 0.06 0.05 = Inr v"
    and len: "int (length (Data res)) = holding_period interest_only_inputs + 1"
    and out: "total_cash_out v = initial_equity 100000 200000 + total_principal_paid (final_state v)"
    and guard: "total_cash_out v \<le> 0 \<longrightarrow> Cash_on_Cash_Total res = 0"
    by blast
  have tpp: "total_principal_paid (final_state v) = 0"
    using v interest_only_run [of irr_nan 100000 200000 "0.06" "0.05"]
    by (auto simp: scenario_body_Inr [OF hp] Let_def n)
  have o: "total_cash_out v = - 94000" using out tpp ie by simp
  then have "Cash_on_Cash_Total res = 0" using guard by simp
  with h res v len o show ?thesis by (simp add: interest_only_inputs_def)
qed

text \<open>
  C5 as stated fails in its last sentence: the multiple is 0 with a positive denominator
  when the cash returned sums to 0.
\<close>

theorem cash_on_cash_zero_counterexample:
  "in_domain break_even_inputs 0 0 \<and>
   marginal_tax_rate break_even_inputs \<in> set tax_rates \<and>
   0 < total_cash_out (projr (scenario_body break_even_inputs 100000 0 0 0)) \<and>
   Cash_on_Cash_Total (projr (calculate_scenario irr_nan break_even_inputs 100000 0 0 0)) = 0"
proof -
  have h: "in_domain break_even_inputs 0 0"
    by (simp add: in_domain_def break_even_inputs_def)
  have t: "marginal_tax_rate break_even_inputs \<in> set tax_rates"
    by (simp add: break_even_inputs_def tax_rates_def)
  have hp: "0 \<le> holding_period break_even_inputs" by (simp add: break_even_inputs_def)
  from calculate_scenario_Inr [OF hp, of irr_nan 100000 0 0 0] obtain res v where
    res: "calculate_scenario irr_nan break_even_inputs 100000 0 0 0 = Inr res"
    and v: "scenario_body break_even_inputs 100000 0 0 0 = Inr v"
    and coc: "Cash_on_Cash_Total res = coc_total_outlay v"
    by blast
  show ?thesis
    using h t res v coc break_even_run [OF v] by simp
qed

subsection \<open>C6\<close>

text \<open>
  C6. For every non-empty cash-flow stream whose entries are all positive or all negative,
  an IRR solver that meets its contract reports no solution. For every in-domain
  parameter set and every solver, \<^verbatim>\<open>calculate_scenario\<close> returns; the ledger, the
  cash-on-cash multiple and the net profit are those of the function body and do not
  depend on the solver, and a same-sign stream leaves only the IRR field undefined.
\<close>

theorem irr_same_sign_no_solution:
  "(irr_contract irr \<and> cfs \<noteq> [] \<and> same_sign cfs \<longrightarrow> irr cfs = None) \<and>
   (in_domain g i c \<longrightarrow>
      (\<exists>res v. calculate_scenario irr g p l i c = Inr res \<and>
         scenario_body g p l i c = Inr v \<and>
         int (length (Data res)) = holding_period g + 1 \<and>
         Data res = data (final_state v) \<and>
         Cash_on_Cash_Total res = coc_total_outlay v \<and>
         Net_Profit res = sum_list (cash_flows_post_tax (final_state v)) \<and>
         IRR_Post_Tax res = irr (cash_flows_post_tax (final_state v)) \<and>
         IRR_Pre_Tax res = irr (cash_flows_pre_tax (final_state v)) \<and>
         (irr_contract irr \<and> same_sign (cash_flows_post_tax (final_state v)) \<longrightarrow>
            IRR_Post_Tax res = None) \<and>
         (irr_contract irr \<and> same_sign (cash_flows_pre_tax (final_state v)) \<longrightarrow>
            IRR_Pre_Tax res = None) \<and>
         (\<forall>irr'. \<exists>res'. calculate_scenario irr' g p l i c = Inr res' \<and>
            Data res' = Data res \<and>
            Cash_on_Cash_Total res' = Cash_on_Cash_Total res \<and>
            Net_Profit res' = Net_Profit res)))"
proof (intro conjI impI)
  assume "irr_contract irr \<and> cfs \<noteq> [] \<and> same_sign cfs"
  then show "irr cfs = None" using contract_same_sign by blast
next
  assume dom: "in_domain g i c"
  have hp1: "1 \<le> holding_period g" by (rule in_domain_holding [OF dom])
  then have hp: "0 \<le> holding_period g" by simp
  from hp1 obtain m where "nat (holding_period g) = Suc m"
    by (cases "nat (holding_period g)") simp_all
  then have hm: "holding_period g = int (Suc m)" using hp1 by linarith
  from calculate_scenario_Inr [OF hp, of irr p l i c] obtain res v where
    res: "calculate_scenario irr g p l i c = Inr res"
    and v: "scenario_body g p l i c = Inr v"
    and d: "Data res = data (state_after g p l i c (nat (holding_period g)))"
    and dv: "data (final_state v) = data (state_after g p l i c (nat (holding_period g)))"
    and coc: "Cash_on_Cash_Total res = coc_total_outlay v"
    and np: "Net_Profit res = sum_list (cash_flows_post_tax (final_state v))"
    and ipost: "IRR_Post_Tax res = irr (cash_flows_post_tax (final_state v))"
    and ipre: "IRR_Pre_Tax res = irr (cash_flows_pre_tax (final_state v))"
    by blast
  have len: "int (length (Data res)) = holding_period g + 1"
    unfolding d using hp by (simp add: length_data_state_after)
  have ne: "cash_flows_post_tax (final_state v) \<noteq> []" "cash_flows_pre_tax (final_state v) \<noteq> []"
    using final_streams [OF hm, of p l i c] v by auto
  have fpost: "IRR_Post_Tax res = None"
    if "irr_contract irr \<and> same_sign (cash_flows_post_tax (final_state v))"
    unfolding ipost using that ne(1) contract_same_sign by blast
  have fpre: "IRR_Pre_Tax res = None"
    if "irr_contract irr \<and> same_sign (cash_flows_pre_tax (final_state v))"
    unfolding ipre using that ne(2) contract_same_sign by blast
  have indep: "\<exists>res'. calculate_scenario irr' g p l i c = Inr res' \<and>
            Data res' = Data res \<and>
            Cash_on_Cash_Total res' = Cash_on_Cash_Total res \<and>
            Net_Profit res' = Net_Profit res" for irr'
    using calculate_scenario_Inr [OF hp, of irr' p l i c] v d coc np by auto
  show "\<exists>res v. calculate_scenario irr g p l i c = Inr res \<and>
         scenario_body g p l i c = Inr v \<and>
         int (length (Data res)) = holding_period g + 1 \<and>
         Data res = data (final_state v) \<and>
         Cash_on_Cash_Total res = coc_total_outlay v \<and>
         Net_Profit res = sum_list (cash_flows_post_tax (final_state v)) \<and>
         IRR_Post_Tax res = irr (cash_flows_post_tax (final_state v)) \<and>
         IRR_Pre_Tax res = irr (cash_flows_pre_tax (final_state v)) \<and>
         (irr_contract irr \<and> same_sign (cash_flows_post_tax (final_state v)) \<longrightarrow>
            IRR_Post_Tax res = None) \<and>
         (irr_contract irr \<and> same_sign (cash_flows_pre_tax (final_state v)) \<longrightarrow>
            IRR_Pre_Tax res = None) \<and>
         (\<forall>irr'. \<exists>res'. calculate_scenario irr' g p l i c = Inr res' \<and>
            Data res' = Data res \<and>
            Cash_on_Cash_Total res' = Cash_on_Cash_Total res \<and>
            Net_Profit res' = Net_Profit res)"
    using res v len d dv coc np ipost ipre fpost fpre indep by (intro exI [of _ res] exI [of _ v]) simp
qed

text \<open>
  The bisection solver on the stream \<open>[100, 110]\<close>, and on a scenario whose streams are
  all negative: both IRR fields are undefined, the other fields are returned.
\<close>

theorem irr_same_sign_no_solution_witness:
  "irr_contract (bisection_irr 20 (- 1 / 2) (3 / 2)) \<and>
   [100, 110 :: real] \<noteq> [] \<and> same_sign [100, 110] \<and>
   bisection_irr 20 (- 1 / 2) (3 / 2) [100, 110] = None \<and>
   in_domain break_even_inputs 0 0 \<and>
   (\<exists>res v. calculate_scenario (bisection_irr 20 (- 1 / 2) (3 / 2)) break_even_inputs
                100000 10000 0 0 = Inr res \<and>
      scenario_body break_even_inputs 100000 10000 0 0 = Inr v \<and>
      cash_flows_post_tax (final_state v) = [- 96000, - 10000] \<and>
      same_sign (cash_flows_post_tax (final_state v)) \<and>
      IRR_Post_Tax res = None \<and>
      IRR_Pre_Tax res = None \<and>
      length (Data res) = 2 \<and>
      Cash_on_Cash_Total res = - 10 / 97 \<and>
      Net_Profit res = - 106000)"
proof -
  have ct: "irr_contract (bisection_irr 20 (- 1 / 2) (3 / 2))"
    by (rule bisection_irr_contract) simp_all
  have ss: "same_sign [100, 110]" by (simp add: same_sign_def)
  have dom: "in_domain break_even_inputs 0 0"
    by (simp add: in_domain_def break_even_inputs_def)
  have hp: "holding_period break_even_inputs = 1" by (simp add: break_even_inputs_def)
  note inst = irr_same_sign_no_solution [of "bisection_irr 20 (- 1 / 2) (3 / 2)" "[100, 110]"
      break_even_inputs 0 0 100000 10000]
  have none: "bisection_irr 20 (- 1 / 2) (3 / 2) [100, 110] = None"
    using inst ct ss by simp
  from inst dom obtain res v where
    res: "calculate_scenario (bisection_irr 20 (- 1 / 2) (3 / 2)) break_even_inputs
            100000 10000 0 0 = Inr res"
    and v: "scenario_body break_even_inputs 100000 10000 0 0 = Inr v"
    and len: "int (length (Data res)) = holding_period break_even_inputs + 1"
    and coc: "Cash_on_Cash_Total res = coc_total_outlay v"
    and np: "Net_Profit res = sum_list (cash_flows_post_tax (final_state v))"
    and fpost: "irr_contract (bisection_irr 20 (- 1 / 2) (3 / 2)) \<and>
                same_sign (cash_flows_post_tax (final_state v)) \<longrightarrow> IRR_Post_Tax res = None"
    and fpre: "irr_contract (bisection_irr 20 (- 1 / 2) (3 / 2)) \<and>
                same_sign (cash_flows_pre_tax (final_state v)) \<longrightarrow> IRR_Pre_Tax res = None"
    by blast
  from loss_run [OF v] have
    post: "cash_flows_post_tax (final_state v) = [- 96000, - 10000]"
    and pre: "cash_flows_pre_tax (final_state v) = [- 96000, - 10000]"
    and cv: "coc_total_outlay v = - 10 / 97"
    by simp_all
  have ssp: "same_sign (cash_flows_post_tax (final_state v))"
    unfolding post by (simp add: same_sign_def)
  have ssq: "same_sign (cash_flows_pre_tax (final_state v))"
    unfolding pre by (simp add: same_sign_def)
  have a: "IRR_Post_Tax res = None" using fpost ct ssp by simp
  have b: "IRR_Pre_Tax res = None" using fpre ct ssq by simp
  have l2: "length (Data res) = 2" using len hp by simp
  have n: "Net_Profit res = - 106000" using np post by simp
  show ?thesis
    using ct ss none dom res v post ssp a b l2 coc cv n by simp
qed

subsection \<open>C7\<close>

text \<open>
  C7. For every in-domain base parameter set and all axes, the sensitivity loops return a
  matrix with one row per interest rate and one column per growth rate, whose entry
  \<open>(i, j)\<close> is the post-tax IRR of \<^verbatim>\<open>calculate_scenario\<close> called with the base purchase
  price and loan amount, the i-th interest rate and the j-th growth rate; all other inputs
  are the same globals.
\<close>

theorem sensitivity_matrix_cells:
  assumes "in_domain g base_rate base_growth"
  shows "\<exists>m. matrix_data irr g p l irs cgs = Inr m \<and>
           length m = length irs \<and>
           (\<forall>i<length irs. length (m ! i) = length cgs \<and>
              (\<forall>j<length cgs. \<exists>res. calculate_scenario irr g p l (irs ! i) (cgs ! j) = Inr res \<and>
                                   m ! i ! j = IRR_Post_Tax res))"
proof -
  have hp: "0 \<le> holding_period g" using in_domain_holding [OF assms] by simp
  from matrix_data_Inr [OF hp, of irr p l irs cgs] obtain m where
    m: "matrix_data irr g p l irs cgs = Inr m"
    and len: "length m = length irs"
    and rows: "\<forall>i<length irs. matrix_row irr g p l (irs ! i) cgs = Inr (m ! i)"
    by blast
  have "length (m ! i) = length cgs \<and>
        (\<forall>j<length cgs. \<exists>res. calculate_scenario irr g p l (irs ! i) (cgs ! j) = Inr res \<and>
                            m ! i ! j = IRR_Post_Tax res)"
    if "i < length irs" for i
    using matrix_row_Inr [OF hp, of irr p l "irs ! i" cgs] rows that by auto
  then show ?thesis using m len by blast
qed

text \<open>
  A sweep over 1 by 1 axes yields the single cell of the direct call, and the default
  axes of lines 176--177 yield a 5 by 5 matrix.
\<close>

theorem sensitivity_matrix_cells_witness:
  "in_domain example_inputs 0.06 0.05 \<and>
   (\<exists>m res. matrix_data irr_nan example_inputs 750000 600000 [0.06] [0.05] = Inr m \<and>
      calculate_scenario irr_nan example_inputs 750000 600000 0.06 0.05 = Inr res \<and>
      m = [[IRR_Post_Tax res]]) \<and>
   (\<exists>m res. matrix_data irr_nan example_inputs 750000 600000 interest_ranges growth_ranges = Inr m \<and>
      length m = 5 \<and> length (m ! 4) = 5 \<and>
      calculate_scenario irr_nan example_inputs 750000 600000 0.08 0.03 = Inr res \<and>
      m ! 4 ! 0 = IRR_Post_Tax res)"
proof -
  have h: "in_domain example_inputs 0.06 0.05"
    by (simp add: in_domain_def example_inputs_def)
  from sensitivity_matrix_cells [OF h, of irr_nan 750000 600000 "[0.06]" "[0.05]"]
  obtain m where m: "matrix_data irr_nan example_inputs 750000 600000 [0.06] [0.05] = Inr m"
    and len: "length m = 1"
    and cells: "\<forall>i<length [0.06::real]. length (m ! i) = length [0.05::real] \<and>
              (\<forall>j<length [0.05::real]. \<exists>res.
                  calculate_scenario irr_nan example_inputs 750000 600000 ([0.06] ! i) ([0.05] ! j)
                    = Inr res \<and> m ! i ! j = IRR_Post_Tax res)"
    by auto
  from cells [rule_format, of 0] obtain res where
    l0: "length (m ! 0) = 1"
    and res: "calculate_scenario irr_nan example_inputs 750000 600000 0.06 0.05 = Inr res"
    and c: "m ! 0 ! 0 = IRR_Post_Tax res"
    by auto
  from len obtain r where mr: "m = [r]" by (cases m) auto
  with l0 obtain x where rx: "r = [x]" by (cases r) auto
  have one: "m = [[IRR_Post_Tax res]]" using mr rx c by simp
  from sensitivity_matrix_cells [OF h, of irr_nan 750000 600000 interest_ranges growth_ranges]
  obtain m5 where m5: "matrix_data irr_nan example_inputs 750000 600000 interest_ranges growth_ranges
                         = Inr m5"
    and len5: "length m5 = length interest_ranges"
    and cells5: "\<forall>i<length interest_ranges. length (m5 ! i) = length growth_ranges \<and>
              (\<forall>j<length growth_ranges. \<exists>res.
                  calculate_scenario irr_nan example_inputs 750000 600000
                    (interest_ranges ! i) (growth_ranges ! j)
                    = Inr res \<and> m5 ! i ! j = IRR_Post_Tax res)"
    by blast
  have li: "length interest_ranges = 5" and lg: "length growth_ranges = 5"
    and i4: "interest_ranges ! 4 = 0.08" and g0: "growth_ranges ! 0 = 0.03"
    by (simp_all add: interest_ranges_def growth_ranges_def)
  have row4: "length (m5 ! 4) = length growth_ranges \<and>
              (\<forall>j<length growth_ranges. \<exists>res.
                  calculate_scenario irr_nan example_inputs 750000 600000
                    (interest_ranges ! 4) (growth_ranges ! j)
                    = Inr res \<and> m5 ! 4 ! j = IRR_Post_Tax res)"
    using cells5 [rule_format, of 4] li by simp
  then have l4: "length (m5 ! 4) = 5" using lg by simp
  have "\<exists>res. calculate_scenario irr_nan example_inputs 750000 600000
                (interest_ranges ! 4) (growth_ranges ! 0) = Inr res \<and>
              m5 ! 4 ! 0 = IRR_Post_Tax res"
    using row4 lg by simp
  then obtain res5 where
    res5: "calculate_scenario irr_nan example_inputs 750000 600000 0.08 0.03 = Inr res5"
    and c5: "m5 ! 4 ! 0 = IRR_Post_Tax res5"
    unfolding i4 g0 by blast
  show ?thesis
    using h m res one m5 len5 li l4 res5 c5 by auto
qed

subsection \<open>C8\<close>

text \<open>
  C8 (amended). For every in-domain parameter set whose interest-only period equals the
  loan term and whose loan principal is non-negative, the principal payment recorded for
  every year 1..holding period is 0 and the loan balance of the final year record equals
  the loan principal.
\<close>

theorem fully_interest_only:
  assumes "in_domain g i c" and "interest_only_period g = loan_term g" and "0 \<le> l"
  shows "\<exists>res. calculate_scenario irr g p l i c = Inr res \<and>
           (\<forall>k. 1 \<le> k \<and> int k \<le> holding_period g \<longrightarrow> Principal (Data res ! k) = 0) \<and>
           Data res \<noteq> [] \<and>
           Year (last (Data res)) = holding_period g \<and>
           Loan (last (Data res)) = l"
proof -
  have hp1: "1 \<le> holding_period g" by (rule in_domain_holding [OF assms(1)])
  then have hp: "0 \<le> holding_period g" by simp
  from calculate_scenario_Inr [OF hp, of irr p l i c]
  obtain res where res: "calculate_scenario irr g p l i c = Inr res"
    and d: "Data res = data (state_after g p l i c (nat (holding_period g)))"
    by blast
  have princ: "Principal (Data res ! k) = 0" if k: "1 \<le> k \<and> int k \<le> holding_period g" for k
  proof -
    have kn: "k \<le> nat (holding_period g)" using k by linarith
    have k1: "1 \<le> k" using k by simp
    show ?thesis
      unfolding d nth_data_state_after [OF kn] row_fields(6) [OF k1]
      by (rule loan_calcs_interest_only [OF assms(2)])
  qed
  have ne: "Data res \<noteq> []" unfolding d by (rule data_state_after_ne)
  have n1: "1 \<le> nat (holding_period g)" using hp1 by simp
  have yr: "Year (last (Data res)) = holding_period g"
    unfolding d last_data_state_after row_fields(1) [OF n1] using hp by simp
  have ln: "Loan (last (Data res)) = l"
    unfolding d last_data_state_after Loan_row
    by (rule interest_only_loan [OF assms(2,3)])
  show ?thesis using res princ ne yr ln by blast
qed

text \<open>The instance at the interest-only example with a loan of 600000.\<close>

theorem fully_interest_only_witness:
  "in_domain interest_only_inputs 0.06 0.05 \<and>
   interest_only_period interest_only_inputs = loan_term interest_only_inputs \<and>
   (0::real) \<le> 600000 \<and>
   (\<exists>res. calculate_scenario irr_nan interest_only_inputs 750000 600000 0.06 0.05 = Inr res \<and>
      Principal (Data res ! 1) = 0 \<and>
      Year (last (Data res)) = 1 \<and>
      Loan (last (Data res)) = 600000)"
proof -
  have h: "in_domain interest_only_inputs 0.06 0.05"
    by (simp add: in_domain_def interest_only_inputs_def)
  have io: "interest_only_period interest_only_inputs = loan_term interest_only_inputs"
    by (simp add: interest_only_inputs_def)
  have hp: "holding_period interest_only_inputs = 1" by (simp add: interest_only_inputs_def)
  from fully_interest_only [OF h io, of 600000 irr_nan 750000] obtain res where
    res: "calculate_scenario irr_nan interest_only_inputs 750000 600000 0.06 0.05 = Inr res"
    and princ: "\<forall>k. 1 \<le> k \<and> int k \<le> holding_period interest_only_inputs \<longrightarrow>
                  Principal (Data res ! k) = 0"
    and yr: "Year (last (Data res)) = holding_period interest_only_inputs"
    and ln: "Loan (last (Data res)) = 600000"
    by auto
  have p1: "Principal (Data res ! 1) = 0" using princ [rule_format, of 1] by (simp add: hp)
  show ?thesis using h io res p1 yr ln by (simp add: hp)
qed

text \<open>
  C8 as stated fails: with a loan principal of \<open>-100\<close> the clamp of line 88 sets the
  balance to 0, so the final balance differs from the principal.
\<close>

theorem interest_only_final_balance_counterexample:
  "in_domain interest_only_inputs 0.06 0.05 \<and>
   marginal_tax_rate interest_only_inputs \<in> set tax_rates \<and>
   interest_only_period interest_only_inputs = loan_term interest_only_inputs \<and>
   length (Data (projr (calculate_scenario irr_nan interest_only_inputs 750000 (- 100) 0.06 0.05))) = 2 \<and>
   Loan (last (Data (projr (calculate_scenario irr_nan interest_only_inputs 750000 (- 100) 0.06 0.05))))
     = 0"
proof -
  have h: "in_domain interest_only_inputs 0.06 0.05"
    by (simp add: in_domain_def interest_only_inputs_def)
  have t: "marginal_tax_rate interest_only_inputs \<in> set tax_rates"
    by (simp add: interest_only_inputs_def tax_rates_def)
  have io: "interest_only_period interest_only_inputs = loan_term interest_only_inputs"
    by (simp add: interest_only_inputs_def)
  have len: "length (data (state_after interest_only_inputs 750000 (- 100) 0.06 0.05 1)) = 2"
    by (simp add: length_data_state_after)
  have lst: "last (data (state_after interest_only_inputs 750000 (- 100) 0.06 0.05 1)) =
               data (state_after interest_only_inputs 750000 (- 100) 0.06 0.05 1) ! 1"
    by (rule last_data_state_after)
  show ?thesis
    using h t io len lst interest_only_run [of irr_nan 750000 "- 100" "0.06" "0.05"] by simp
qed

subsection \<open>C9\<close>

text \<open>
  C9. For every in-domain parameter set with interest rate 0 and every year \<open>k\<close> of the
  projection in the amortizing phase (\<open>k\<close> above the interest-only period, remaining term
  \<open>loan term - (k - 1) > 0\<close>), the payment is the balance at the start of the year divided
  by the remaining term, the recorded interest is 0 and the recorded principal payment is
  that quotient.
\<close>

theorem zero_rate_amortization:
  assumes "in_domain g 0 c"
    and "1 \<le> k" and "int k \<le> holding_period g"
    and "interest_only_period g < int k" and "0 < loan_term g - (int k - 1)"
  shows "\<exists>res. calculate_scenario irr g p l 0 c = Inr res \<and>
           - pmt 0 (loan_term g - (int k - 1)) (Loan (Data res ! (k - 1))) =
               Loan (Data res ! (k - 1)) / real_of_int (loan_term g - (int k - 1)) \<and>
           Interest (Data res ! k) = 0 \<and>
           Principal (Data res ! k) =
               - pmt 0 (loan_term g - (int k - 1)) (Loan (Data res ! (k - 1))) \<and>
           Principal (Data res ! k) =
               Loan (Data res ! (k - 1)) / real_of_int (loan_term g - (int k - 1))"
proof -
  have hp: "0 \<le> holding_period g" using in_domain_holding [OF assms(1)] by simp
  from calculate_scenario_Inr [OF hp, of irr p l 0 c]
  obtain res where res: "calculate_scenario irr g p l 0 c = Inr res"
    and d: "Data res = data (state_after g p l 0 c (nat (holding_period g)))"
    by blast
  have kn: "k \<le> nat (holding_period g)" using assms(3) by simp
  have kn': "k - 1 \<le> nat (holding_period g)" using kn by simp
  have prev: "Loan (Data res ! (k - 1)) = current_loan (state_after g p l 0 c (k - 1))"
    unfolding d nth_data_state_after [OF kn'] by (rule Loan_row)
  have lc: "loan_calcs g 0 (current_loan (state_after g p l 0 c (k - 1))) (int k) =
              (0, current_loan (state_after g p l 0 c (k - 1))
                    / real_of_int (loan_term g - (int k - 1)))"
    by (rule loan_calcs_rate_0 [OF assms(4,5)])
  have pay: "- pmt 0 (loan_term g - (int k - 1)) (Loan (Data res ! (k - 1))) =
               Loan (Data res ! (k - 1)) / real_of_int (loan_term g - (int k - 1))"
    by (rule pmt_rate_0 [OF assms(5)])
  have int: "Interest (Data res ! k) = 0"
    unfolding d nth_data_state_after [OF kn] row_fields(5) [OF assms(2)] lc by simp
  have princ: "Principal (Data res ! k) =
                 Loan (Data res ! (k - 1)) / real_of_int (loan_term g - (int k - 1))"
    unfolding d nth_data_state_after [OF kn] row_fields(6) [OF assms(2)] lc
    using prev [unfolded d] nth_data_state_after [OF kn', of g p l 0 c] by simp
  show ?thesis using res pay int princ by simp
qed

text \<open>The instance at the specification's example with rate 0, year 1: 600000 / 30.\<close>

theorem zero_rate_amortization_witness:
  "in_domain example_inputs 0 0.05 \<and> (1::nat) \<le> 1 \<and> int 1 \<le> holding_period example_inputs \<and>
   interest_only_period example_inputs < int 1 \<and>
   0 < loan_term example_inputs - (int 1 - 1) \<and>
   (\<exists>res. calculate_scenario irr_nan example_inputs 750000 600000 0 0.05 = Inr res \<and>
      - pmt 0 30 600000 = 20000 \<and>
      Loan (Data res ! 0) = 600000 \<and>
      Interest (Data res ! 1) = 0 \<and>
      Principal (Data res ! 1) = 20000)"
proof -
  have h: "in_domain example_inputs 0 0.05"
    by (simp add: in_domain_def example_inputs_def)
  have k: "int 1 \<le> holding_period example_inputs" by (simp add: example_inputs_def)
  have io: "interest_only_period example_inputs < int 1" by (simp add: example_inputs_def)
  have rt: "0 < loan_term example_inputs - (int 1 - 1)" by (simp add: example_inputs_def)
  have r0: "Loan (Data (projr (calculate_scenario irr_nan example_inputs 750000 600000 0 0.05)) ! 0)
              = 600000"
    using calculate_scenario_Inr [of example_inputs irr_nan 750000 600000 0 "0.05"]
      nth_data_state_after [of 0 "nat (holding_period example_inputs)" example_inputs 750000 600000 0 "0.05"]
    by (auto simp: example_inputs_def row_0)
  from zero_rate_amortization [OF h _ k io rt, of irr_nan 750000 600000] r0 h k io rt
  show ?thesis by (auto simp: example_inputs_def)
qed

subsection \<open>C10\<close>

text \<open>
  C10 (amended). For every in-domain parameter set with a non-negative loan principal, at
  the end of every year the recorded loan balance plus the principal paid so far equals
  the loan principal; each year's principal payment is at most the balance before it, so
  the new balance is the old one minus the payment (the clamp of line 88 has no effect),
  and the accumulated \<^verbatim>\<open>total_principal_paid\<close> is the sum of the recorded payments.
\<close>

theorem loan_plus_principal_paid:
  assumes "in_domain g i c" and "0 \<le> l"
  shows "\<exists>res v. calculate_scenario irr g p l i c = Inr res \<and>
           scenario_body g p l i c = Inr v \<and>
           total_principal_paid (final_state v) = sum_list (map Principal (Data res)) \<and>
           (\<forall>k. int k \<le> holding_period g \<longrightarrow>
                Loan (Data res ! k) + sum_list (map Principal (take (Suc k) (Data res))) = l) \<and>
           (\<forall>k. int k < holding_period g \<longrightarrow>
                Principal (Data res ! Suc k) \<le> Loan (Data res ! k) \<and>
                Loan (Data res ! Suc k) = Loan (Data res ! k) - Principal (Data res ! Suc k)) \<and>
           Loan (final_row v) + total_principal_paid (final_state v) = l"
proof -
  have i0: "0 \<le> i" using assms(1) by (simp add: in_domain_def)
  have hp: "0 \<le> holding_period g" using in_domain_holding [OF assms(1)] by simp
  from calculate_scenario_Inr [OF hp, of irr p l i c]
  obtain res v where res: "calculate_scenario irr g p l i c = Inr res"
    and v: "scenario_body g p l i c = Inr v"
    and d: "Data res = data (state_after g p l i c (nat (holding_period g)))"
    by blast
  have row: "Loan (Data res ! k) = current_loan (state_after g p l i c k)"
    if "int k \<le> holding_period g" for k
  proof -
    have kn: "k \<le> nat (holding_period g)" using that by simp
    show ?thesis
      unfolding d nth_data_state_after [OF kn] by (rule Loan_row)
  qed
  have cum: "sum_list (map Principal (take (Suc k) (Data res))) =
               total_principal_paid (state_after g p l i c k)"
    if "int k \<le> holding_period g" for k
  proof -
    have kn: "k \<le> nat (holding_period g)" using that by simp
    show ?thesis
      unfolding d data_take [OF kn, symmetric] by (rule total_principal_paid_sum [symmetric])
  qed
  have inv: "Loan (Data res ! k) + sum_list (map Principal (take (Suc k) (Data res))) = l"
    if "int k \<le> holding_period g" for k
    unfolding row [OF that] cum [OF that] using loan_invariant [OF i0 assms(2), of g p c k] by simp
  have step: "Principal (Data res ! Suc k) \<le> Loan (Data res ! k) \<and>
              Loan (Data res ! Suc k) = Loan (Data res ! k) - Principal (Data res ! Suc k)"
    if "int k < holding_period g" for k
  proof -
    have a: "int (Suc k) \<le> holding_period g" and b: "int k \<le> holding_period g"
      using that by simp_all
    have kn: "Suc k \<le> nat (holding_period g)" using that by simp
    have nn: "0 \<le> current_loan (state_after g p l i c k)"
      using loan_invariant [OF i0 assms(2), of g p c k] by simp
    have pr: "Principal (Data res ! Suc k) =
                snd (loan_calcs g i (current_loan (state_after g p l i c k)) (int k + 1))"
      unfolding d nth_data_state_after [OF kn]
      using row_fields(6) [of "Suc k" g p l i c] by (simp add: add.commute)
    show ?thesis
      unfolding row [OF a] row [OF b] pr
      using loan_calcs_principal_bounds(2) [OF i0 nn, of g "int k + 1"]
        loan_step [OF i0 assms(2), of g p c k]
      by simp
  qed
  have fin: "Loan (final_row v) + total_principal_paid (final_state v) = l"
    using v loan_invariant [OF i0 assms(2), of g p c "nat (holding_period g)"]
    by (simp add: scenario_body_Inr [OF hp] Let_def Loan_row) (auto simp: Loan_row)
  have tot: "total_principal_paid (final_state v) = sum_list (map Principal (Data res))"
    unfolding d using v
    by (auto simp: scenario_body_Inr [OF hp] Let_def total_principal_paid_sum)
  show ?thesis
    using res v tot inv step fin by blast
qed

text \<open>The instance at the specification's example.\<close>

theorem loan_plus_principal_paid_witness:
  "in_domain example_inputs 0.06 0.05 \<and> (0::real) \<le> 600000 \<and>
   (\<exists>res v. calculate_scenario irr_nan example_inputs 750000 600000 0.06 0.05 = Inr res \<and>
      scenario_body example_inputs 750000 600000 0.06 0.05 = Inr v \<and>
      total_principal_paid (final_state v) = sum_list (map Principal (Data res)) \<and>
      Loan (Data res ! 7) + sum_list (map Principal (take 8 (Data res))) = 600000 \<and>
      Principal (Data res ! 3) \<le> Loan (Data res ! 2) \<and>
      Loan (Data res ! 3) = Loan (Data res ! 2) - Principal (Data res ! 3) \<and>
      Loan (final_row v) + total_principal_paid (final_state v) = 600000)"
proof -
  have h: "in_domain example_inputs 0.06 0.05"
    by (simp add: in_domain_def example_inputs_def)
  have hp: "holding_period example_inputs = 10" by (simp add: example_inputs_def)
  have l0: "(0::real) \<le> 600000" by simp
  from loan_plus_principal_paid [OF h l0, of irr_nan 750000] obtain res v where
    res: "calculate_scenario irr_nan example_inputs 750000 600000 0.06 0.05 = Inr res"
    and v: "scenario_body example_inputs 750000 600000 0.06 0.05 = Inr v"
    and tot: "total_principal_paid (final_state v) = sum_list (map Principal (Data res))"
    and inv: "\<forall>k. int k \<le> holding_period example_inputs \<longrightarrow>
                Loan (Data res ! k) + sum_list (map Principal (take (Suc k) (Data res))) = 600000"
    and step: "\<forall>k. int k < holding_period example_inputs \<longrightarrow>
                Principal (Data res ! Suc k) \<le> Loan (Data res ! k) \<and>
                Loan (Data res ! Suc k) = Loan (Data res ! k) - Principal (Data res ! Suc k)"
    and fin: "Loan (final_row v) + total_principal_paid (final_state v) = 600000"
    by blast
  have a: "Loan (Data res ! 7) + sum_list (map Principal (take 8 (Data res))) = 600000"
    using inv [rule_format, of 7] by (simp add: hp)
  have b: "Principal (Data res ! 3) \<le> Loan (Data res ! 2) \<and>
      Loan (Data res ! 3) = Loan (Data res ! 2) - Principal (Data res ! 3)"
    using step [rule_format, of 2] by (simp add: hp eval_nat_numeral)
  show ?thesis using h res v tot a b fin by simp
qed

text \<open>
  C10 as stated fails: with a loan principal of \<open>-100\<close> the clamp takes effect, and the
  final balance 0 plus the principal paid 0 is not \<open>-100\<close>.
\<close>

theorem negative_loan_clamp_counterexample:
  "in_domain interest_only_inputs 0.06 0.05 \<and>
   marginal_tax_rate interest_only_inputs \<in> set tax_rates \<and>
   Loan (final_row (projr (scenario_body interest_only_inputs 750000 (- 100) 0.06 0.05))) = 0 \<and>
   total_principal_paid (final_state (projr (scenario_body interest_only_inputs 750000 (- 100) 0.06 0.05)))
     = 0"
proof -
  have h: "in_domain interest_only_inputs 0.06 0.05"
    by (simp add: in_domain_def interest_only_inputs_def)
  have t: "marginal_tax_rate interest_only_inputs \<in> set tax_rates"
    by (simp add: interest_only_inputs_def tax_rates_def)
  have hp: "0 \<le> holding_period interest_only_inputs" by (simp add: interest_only_inputs_def)
  have n: "nat (holding_period interest_only_inputs) = 1" by (simp add: interest_only_inputs_def)
  show ?thesis
    using h t interest_only_run [of irr_nan 750000 "- 100" "0.06" "0.05"]
    by (simp add: scenario_body_Inr [OF hp] Let_def n)
qed

end
